theory Spec2Isabelle
  imports Complex_Main "HOL-Library.Sublist"
begin

section \<open>Python values used by the driver\<close>

text \<open>
  The driver \<^verbatim>\<open>bert_gan.py\<close> is orchestration code: it validates the parsed options,
  builds its collaborators and then runs up to three phases. Every exception the driver
  itself can raise is a value of \<open>error\<close>. Python's \<^verbatim>\<open>assert\<close> is taken as active (the
  interpreter is not run with \<^verbatim>\<open>-O\<close>).
\<close>

datatype error =
    AssertionError
  | AttributeError string
  | NameError string
  | TypeError
  | ZeroDivisionError
  | IndexError

text \<open>
  A Python \<^verbatim>\<open>float\<close> as the comparisons of the driver see it: a finite value, one of the two
  infinities, or not-a-number (\<^verbatim>\<open>argparse\<close> with \<^verbatim>\<open>type=float\<close> accepts \<^verbatim>\<open>inf\<close> and \<^verbatim>\<open>nan\<close>).
  Comparison is exact on finite values and false whenever one side is not-a-number.
\<close>

datatype pyfloat = Fin real | PosInf | NegInf | NaN

fun flt_lt :: "pyfloat \<Rightarrow> pyfloat \<Rightarrow> bool" where
  "flt_lt (Fin a) (Fin b) = (a < b)"
| "flt_lt (Fin a) PosInf = True"
| "flt_lt NegInf (Fin b) = True"
| "flt_lt NegInf PosInf = True"
| "flt_lt _ _ = False"

fun flt_le :: "pyfloat \<Rightarrow> pyfloat \<Rightarrow> bool" where
  "flt_le (Fin a) (Fin b) = (a \<le> b)"
| "flt_le (Fin a) PosInf = True"
| "flt_le NegInf (Fin b) = True"
| "flt_le NegInf PosInf = True"
| "flt_le NegInf NegInf = True"
| "flt_le PosInf PosInf = True"
| "flt_le _ _ = False"

text \<open>Python's \<^verbatim>\<open>a % b\<close> on integers: the result has the sign of \<open>b\<close>, and \<open>b = 0\<close> raises.\<close>

definition py_mod :: "int \<Rightarrow> int \<Rightarrow> error + int" where
  "py_mod a b = (if b = 0 then Inl ZeroDivisionError else Inr (a mod b))"

section \<open>The parsed command line\<close>

text \<open>
  The options of \<^verbatim>\<open>main\<close> that the driver itself reads. The remaining options are only handed
  to the collaborators, whose behaviour is a parameter of the model.
\<close>

record args =
  dis_dropout :: pyfloat
  dis_input_dropout :: pyfloat
  dis_steps :: int
  dis_lambda :: pyfloat
  dis_smooth :: pyfloat
  adversarial :: bool
  n_epochs :: int
  min_lr :: pyfloat
  lr_shrink :: pyfloat
  n_refinement :: int
  model_path :: "string option"
  input_file :: "string option"
  print_every_dis_steps :: int
  pred :: bool
  src_file :: "string option"
  output_file :: "string option"

section \<open>Collaborators and the trace of calls\<close>

datatype phase = TrainAdv | Refine | Predict

text \<open>One line of the prediction output: the identifier and, per token, the rounded values.\<close>

record out_line =
  linex_index :: int
  features :: "(string \<times> pyfloat list) list"

text \<open>
  Every call the driver makes to a collaborator is an event. \<open>Enter p\<close> marks that the body of
  a phase method starts, \<open>ReadLr x\<close> that the learning rate of the mapping optimizer was read as
  \<open>x\<close>. A batch of the training loader is a value of the type \<open>'b\<close>.
\<close>

datatype 'b event =
    InitializeExp
  | Load
  | BuildModel
  | NewBertTrainer
  | NewBertEvaluator
  | Enter phase
  | LoggerInfo string
  | GetBertSrc 'b
  | GetBertTgt 'b
  | DisStep 'b
  | MappingStep
  | LogStats int
  | SentSim pyfloat
  | EvalDis
  | SaveBest pyfloat
  | UpdateLr pyfloat
  | ReadLr pyfloat
  | ReloadBest
  | Procrustes
  | LoadSingle
  | BertEval
  | OpenOutput string
  | BertForward
  | MappingApply
  | WriteLine out_line
  | CloseOutput

text \<open>One feature of the prediction set, and one batch of the prediction loader.\<close>

record feature =
  unique_id :: int
  tokens :: "string list"

text \<open>
  The collaborators (\<^verbatim>\<open>src.utils\<close>, \<^verbatim>\<open>src.load\<close>, \<^verbatim>\<open>src.build_model\<close>, \<^verbatim>\<open>src.bert_trainer\<close>,
  \<^verbatim>\<open>src.bert_evaluator\<close>, \<^verbatim>\<open>torch\<close>, the file system) are outside this file. They act on an
  opaque state \<open>'w\<close>: \<open>effect\<close> gives what a call does to it, and the remaining fields give the
  values the driver reads back. Each call is taken to return; the elapsed time in the throughput
  log line is taken to be positive.
\<close>

record ('w, 'b) env =
  effect :: "'b event \<Rightarrow> 'w \<Rightarrow> 'w"
  isfile :: "'w \<Rightarrow> string \<Rightarrow> bool"
  train_loader :: "nat \<Rightarrow> 'w \<Rightarrow> 'b list"
  mapping_step_words :: "'w \<Rightarrow> int"
  sent_sim_value :: "'w \<Rightarrow> pyfloat"
  map_lr :: "'w \<Rightarrow> pyfloat"
  pred_loader :: "'w \<Rightarrow> nat list list"
  pred_features :: "'w \<Rightarrow> feature list"
  mapped_layer :: "'w \<Rightarrow> nat \<Rightarrow> nat \<Rightarrow> pyfloat list"
  round6 :: "pyfloat \<Rightarrow> pyfloat"

section \<open>Programs: state, exceptions and the trace\<close>

text \<open>
  The state is that of the collaborators together with the attribute names bound on \<^verbatim>\<open>self\<close>.
  A program returns its outcome and the events it emitted, in order; an exception keeps the
  events emitted before it.
\<close>

record 'w obj =
  world :: 'w
  attrs :: "string list"

type_synonym ('a, 'w, 'b) prog = "'w obj \<Rightarrow> (error + 'a \<times> 'w obj) \<times> 'b event list"

definition return_val :: "'a \<Rightarrow> ('a, 'w, 'b) prog" where
  "return_val a s = (Inr (a, s), [])"

definition raise_err :: "error \<Rightarrow> ('a, 'w, 'b) prog" where
  "raise_err e s = (Inl e, [])"

definition bind_prog :: "('a, 'w, 'b) prog \<Rightarrow> ('a \<Rightarrow> ('c, 'w, 'b) prog) \<Rightarrow> ('c, 'w, 'b) prog" where
  "bind_prog m f s =
     (case m s of
        (Inl e, tr) \<Rightarrow> (Inl e, tr)
      | (Inr (a, s'), tr) \<Rightarrow> (case f a s' of (r, tr') \<Rightarrow> (r, tr @ tr')))"

fun seq_all :: "(unit, 'w, 'b) prog list \<Rightarrow> (unit, 'w, 'b) prog" where
  "seq_all [] = return_val ()"
| "seq_all (m # ms) = bind_prog m (\<lambda>_. seq_all ms)"

definition when_do :: "bool \<Rightarrow> (unit, 'w, 'b) prog \<Rightarrow> (unit, 'w, 'b) prog" where
  "when_do c m = (if c then m else return_val ())"

definition py_assert :: "bool \<Rightarrow> (unit, 'w, 'b) prog" where
  "py_assert c = (if c then return_val () else raise_err AssertionError)"

definition call :: "('w, 'b) env \<Rightarrow> 'b event \<Rightarrow> (unit, 'w, 'b) prog" where
  "call env ev s = (Inr ((), s\<lparr>world := effect env ev (world s)\<rparr>), [ev])"

definition logger_info :: "string \<Rightarrow> (unit, 'w, 'b) prog" where
  "logger_info msg s = (Inr ((), s), [LoggerInfo msg])"

definition setattr_self :: "string \<Rightarrow> (unit, 'w, 'b) prog" where
  "setattr_self n s = (Inr ((), s\<lparr>attrs := n # attrs s\<rparr>), [])"

definition getattr_self :: "string \<Rightarrow> (unit, 'w, 'b) prog" where
  "getattr_self n s = (if n \<in> set (attrs s) then (Inr ((), s), []) else (Inl (AttributeError n), []))"

section \<open>Construction: \<^verbatim>\<open>AdvBert.__init__\<close>\<close>

text \<open>
  \<^verbatim>\<open>os.path.isfile(None)\<close> raises \<^verbatim>\<open>TypeError\<close> (only \<^verbatim>\<open>OSError\<close> and \<^verbatim>\<open>ValueError\<close> are caught
  inside it), so an absent \<^verbatim>\<open>--input_file\<close> fails there and not in the \<^verbatim>\<open>assert\<close>.
\<close>

definition assert_isfile :: "('w, 'b) env \<Rightarrow> string option \<Rightarrow> (unit, 'w, 'b) prog" where
  "assert_isfile env p s =
     (case p of
        None \<Rightarrow> raise_err TypeError s
      | Some f \<Rightarrow> py_assert (isfile env (world s) f) s)"

definition AdvBert_init :: "('w, 'b) env \<Rightarrow> args \<Rightarrow> (unit, 'w, 'b) prog" where
  "AdvBert_init env a = seq_all
     [ setattr_self ''args'',
       py_assert (flt_le (Fin 0) (dis_dropout a) \<and> flt_lt (dis_dropout a) (Fin 1)),
       py_assert (flt_le (Fin 0) (dis_input_dropout a) \<and> flt_lt (dis_input_dropout a) (Fin 1)),
       py_assert (flt_le (Fin 0) (dis_smooth a) \<and> flt_lt (dis_smooth a) (Fin (1/2))),
       py_assert (flt_lt (Fin 0) (dis_lambda a) \<and> dis_steps a > 0),
       py_assert (flt_lt (Fin 0) (lr_shrink a) \<and> flt_le (lr_shrink a) (Fin 1)),
       when_do (adversarial a) (py_assert (model_path a \<noteq> None)),
       call env InitializeExp,
       setattr_self ''logger'',
       when_do (adversarial a) (seq_all
         [ assert_isfile env (input_file a),
           call env Load,
           setattr_self ''dataset'',
           setattr_self ''features'' ]),
       call env BuildModel,
       setattr_self ''bert_model'',
       setattr_self ''mapping'',
       setattr_self ''discriminator'',
       getattr_self ''bert_model'',
       getattr_self ''dataset'',
       getattr_self ''mapping'',
       getattr_self ''discriminator'',
       getattr_self ''args'',
       call env NewBertTrainer,
       setattr_self ''trainer'',
       getattr_self ''trainer'',
       getattr_self ''features'',
       call env NewBertEvaluator,
       setattr_self ''evaluator'',
       setattr_self ''device'' ]"

section \<open>Adversarial training: \<^verbatim>\<open>AdvBert.train_adv\<close>\<close>

definition lift_result :: "error + 'a \<Rightarrow> ('a, 'w, 'b) prog" where
  "lift_result r = (case r of Inl e \<Rightarrow> raise_err e | Inr v \<Rightarrow> return_val v)"

definition mark :: "'b event \<Rightarrow> (unit, 'w, 'b) prog" where
  "mark ev s = (Inr ((), s), [ev])"

text \<open>\<^verbatim>\<open>self.trainer.mapping_step(stats)\<close> returns the number of words it processed.\<close>

definition trainer_mapping_step :: "('w, 'b) env \<Rightarrow> (int, 'w, 'b) prog" where
  "trainer_mapping_step env s =
     (Inr (mapping_step_words env (world s), s\<lparr>world := effect env MappingStep (world s)\<rparr>),
      [MappingStep])"

definition evaluator_sent_sim :: "('w, 'b) env \<Rightarrow> (pyfloat, 'w, 'b) prog" where
  "evaluator_sent_sim env s =
     (let v = sent_sim_value env (world s)
      in (Inr (v, s\<lparr>world := effect env (SentSim v) (world s)\<rparr>), [SentSim v]))"

text \<open>\<^verbatim>\<open>self.trainer.map_optimizer.param_groups[0]['lr']\<close>\<close>

definition read_map_lr :: "('w, 'b) env \<Rightarrow> (pyfloat, 'w, 'b) prog" where
  "read_map_lr env s = (let x = map_lr env (world s) in (Inr (x, s), [ReadLr x]))"

text \<open>
  The body of the loop over the batches of one epoch. The counters are
  \<open>(n_dis_step, n_map_step, n_words_proc)\<close>; the statistics and the timer live in the state of
  the collaborators.
\<close>

definition train_batch ::
  "('w, 'b) env \<Rightarrow> args \<Rightarrow> 'b \<Rightarrow> int \<times> int \<times> int \<Rightarrow> (int \<times> int \<times> int, 'w, 'b) prog" where
  "train_batch env a b c =
     (case c of (n_dis_step, n_map_step, n_words_proc) \<Rightarrow>
        bind_prog (seq_all [call env (GetBertSrc b), call env (GetBertTgt b), call env (DisStep b)])
          (\<lambda>_.
        bind_prog (lift_result (py_mod (n_dis_step + 1) (dis_steps a)))
          (\<lambda>r.
        bind_prog
          (if r = 0
           then bind_prog (trainer_mapping_step env)
                  (\<lambda>k. return_val (n_map_step + 1, n_words_proc + k))
           else return_val (n_map_step, n_words_proc))
          (\<lambda>(n_map_step', n_words_proc').
        bind_prog (lift_result (py_mod (n_dis_step + 1) (print_every_dis_steps a)))
          (\<lambda>r'.
        if r' = 0
        then bind_prog (call env (LogStats (n_dis_step + 1)))
               (\<lambda>_. return_val (n_dis_step + 1, n_map_step', 0))
        else return_val (n_dis_step + 1, n_map_step', n_words_proc'))))))"

fun batch_loop ::
  "('w, 'b) env \<Rightarrow> args \<Rightarrow> 'b list \<Rightarrow> int \<times> int \<times> int \<Rightarrow> (int \<times> int \<times> int, 'w, 'b) prog" where
  "batch_loop env a [] c = return_val c"
| "batch_loop env a (b # bs) c = bind_prog (train_batch env a b c) (\<lambda>c'. batch_loop env a bs c')"

text \<open>One epoch (the body of the outer loop); the result says whether the loop breaks.\<close>

definition train_epoch :: "('w, 'b) env \<Rightarrow> args \<Rightarrow> nat \<Rightarrow> (bool, 'w, 'b) prog" where
  "train_epoch env a n_epoch =
     bind_prog (logger_info ''Starting adversarial training epoch'')
       (\<lambda>_.
     bind_prog (\<lambda>s. batch_loop env a (train_loader env n_epoch (world s)) (0, 0, 0) s)
       (\<lambda>_.
     bind_prog (evaluator_sent_sim env)
       (\<lambda>sent_sim.
     bind_prog (seq_all [call env EvalDis, call env (SaveBest sent_sim),
                         logger_info ''End of epoch'', call env (UpdateLr sent_sim)])
       (\<lambda>_.
     bind_prog (read_map_lr env)
       (\<lambda>lr.
     if flt_lt lr (min_lr a)
     then bind_prog (logger_info ''Learning rate < 1e-6. BREAK.'') (\<lambda>_. return_val True)
     else return_val False)))))"

fun epoch_loop :: "('w, 'b) env \<Rightarrow> args \<Rightarrow> nat list \<Rightarrow> (unit, 'w, 'b) prog" where
  "epoch_loop env a [] = return_val ()"
| "epoch_loop env a (n # ns) =
     bind_prog (train_epoch env a n)
       (\<lambda>brk. if brk then return_val () else epoch_loop env a ns)"

text \<open>
  \<^verbatim>\<open>range(n_epochs)\<close> is empty for a negative count. Building the sampler and the loader calls
  no collaborator of the trainer and is not an event.
\<close>

definition AdvBert_train_adv :: "('w, 'b) env \<Rightarrow> args \<Rightarrow> (unit, 'w, 'b) prog" where
  "AdvBert_train_adv env a = seq_all
     [ mark (Enter TrainAdv),
       logger_info ''----> ADVERSARIAL TRAINING <----'',
       epoch_loop env a [0 ..< nat (n_epochs a)] ]"

section \<open>Procrustes refinement: \<^verbatim>\<open>AdvBert.refine\<close>\<close>

definition refine_iter :: "('w, 'b) env \<Rightarrow> nat \<Rightarrow> (unit, 'w, 'b) prog" where
  "refine_iter env n_iter =
     bind_prog (seq_all [logger_info ''Starting refinement iteration'', call env Procrustes])
       (\<lambda>_.
     bind_prog (evaluator_sent_sim env)
       (\<lambda>sent_sim.
     seq_all [call env (SaveBest sent_sim), logger_info ''End of refinement iteration'']))"

definition AdvBert_refine :: "('w, 'b) env \<Rightarrow> args \<Rightarrow> (unit, 'w, 'b) prog" where
  "AdvBert_refine env a = seq_all
     ([ mark (Enter Refine),
        logger_info ''----> ITERATIVE PROCRUSTES REFINEMENT <----'',
        call env ReloadBest ]
      @ map (refine_iter env) [0 ..< nat (n_refinement a)])"

section \<open>Prediction: \<^verbatim>\<open>AdvBert.pred\<close>\<close>

text \<open>
  A bare name in a function body is a local when the body assigns it, and is otherwise looked
  up among the module's globals and then the builtins; a miss raises \<^verbatim>\<open>NameError\<close>. The lists
  below are the names the module binds at top level (its imports and definitions), the names
  \<^verbatim>\<open>pred\<close> assigns, and the builtins the file reads.
\<close>

definition module_globals :: "string list" where
  "module_globals =
     [''os'', ''time'', ''json'', ''argparse'', ''OrderedDict'', ''np'', ''torch'',
      ''bool_flag'', ''initialize_exp'', ''load'', ''build_model'', ''BertTrainer'',
      ''BertEvaluator'', ''DataLoader'', ''RandomSampler'', ''SequentialSampler'',
      ''main'', ''AdvBert'', ''__name__'']"

definition pred_locals :: "string list" where
  "pred_locals =
     [''self'', ''unique_id_to_feature'', ''pred_sampler'', ''pred_dataloader'', ''writer'',
      ''input_ids'', ''input_mask'', ''example_indices'', ''all_encoder_layers'', ''_'',
      ''src_encoder_layer'', ''mapped_encoder_layer'', ''b'', ''example_index'', ''feature'',
      ''unique_id'', ''output_json'', ''all_out_features'', ''i'', ''token'', ''all_layers'',
      ''layer_output'', ''layers'', ''out_features'', ''x'']"

definition builtins_read :: "string list" where
  "builtins_read = [''object'', ''range'', ''len'', ''int'', ''open'', ''enumerate'', ''round'']"

definition pred_scope :: "string list" where
  "pred_scope = pred_locals @ module_globals @ builtins_read"

definition lookup_name :: "string \<Rightarrow> (unit, 'w, 'b) prog" where
  "lookup_name n = (if n \<in> set pred_scope then return_val () else raise_err (NameError n))"

fun collect :: "('a, 'w, 'b) prog list \<Rightarrow> ('a list, 'w, 'b) prog" where
  "collect [] = return_val []"
| "collect (m # ms) =
     bind_prog m (\<lambda>x. bind_prog (collect ms) (\<lambda>xs. return_val (x # xs)))"

text \<open>The loop over the tokens of one feature: one entry of \<^verbatim>\<open>all_out_features\<close> per token.\<close>

definition pred_token ::
  "('w, 'b) env \<Rightarrow> nat \<Rightarrow> nat \<times> string \<Rightarrow> (string \<times> pyfloat list, 'w, 'b) prog" where
  "pred_token env b it =
     (case it of (i, token) \<Rightarrow>
        bind_prog (seq_all [lookup_name ''collections'', lookup_name ''layer_index'',
                            lookup_name ''round'', lookup_name ''collections''])
          (\<lambda>_ s. return_val (token, map (round6 env) (mapped_layer env (world s) b i)) s))"

text \<open>The loop body for one example of a batch: one line of output.\<close>

definition pred_example :: "('w, 'b) env \<Rightarrow> nat \<times> nat \<Rightarrow> (unit, 'w, 'b) prog" where
  "pred_example env be =
     (case be of (b, example_index) \<Rightarrow>
        bind_prog (lookup_name ''features'')
          (\<lambda>_ s.
             (let fs = pred_features env (world s)
              in if example_index < length fs
                 then bind_prog (seq_all [lookup_name ''int'', lookup_name ''collections''])
                        (\<lambda>_.
                      bind_prog (collect (map (pred_token env b)
                                   (enumerate 0 (tokens (fs ! example_index)))))
                        (\<lambda>all_out_features.
                      bind_prog (lookup_name ''json'')
                        (\<lambda>_.
                      call env (WriteLine \<lparr>linex_index = unique_id (fs ! example_index),
                                          features = all_out_features\<rparr>)))) s
                 else raise_err IndexError s)))"

definition pred_batch :: "('w, 'b) env \<Rightarrow> nat list \<Rightarrow> (unit, 'w, 'b) prog" where
  "pred_batch env example_indices = seq_all
     ([call env BertForward, call env MappingApply]
      @ map (pred_example env) (enumerate 0 example_indices))"

text \<open>\<^verbatim>\<open>with open(...) as writer\<close>: the file is closed when the body returns or raises.\<close>

definition with_open ::
  "('w, 'b) env \<Rightarrow> string \<Rightarrow> (unit, 'w, 'b) prog \<Rightarrow> (unit, 'w, 'b) prog" where
  "with_open env f body s =
     (case bind_prog (call env (OpenOutput f)) (\<lambda>_. body) s of
        (Inl e, tr) \<Rightarrow> (Inl e, tr @ [CloseOutput])
      | (Inr (_, s'), tr) \<Rightarrow> (case call env CloseOutput s' of (r, tr') \<Rightarrow> (r, tr @ tr')))"

definition AdvBert_pred :: "('w, 'b) env \<Rightarrow> args \<Rightarrow> (unit, 'w, 'b) prog" where
  "AdvBert_pred env a = seq_all
     [ mark (Enter Predict),
       py_assert (src_file a \<noteq> None),
       py_assert (output_file a \<noteq> None),
       call env ReloadBest,
       lookup_name ''load_single'',
       call env LoadSingle,
       setattr_self ''pred_dataset'',
       setattr_self ''test_features'',
       lookup_name ''SequentialSampler'',
       lookup_name ''pred_dataset'',
       lookup_name ''DataLoader'',
       lookup_name ''pred_dataset'',
       call env BertEval,
       lookup_name ''open'',
       (case output_file a of
          None \<Rightarrow> raise_err TypeError
        | Some f \<Rightarrow>
            with_open env f
              (\<lambda>s. seq_all (map (pred_batch env) (pred_loader env (world s))) s)) ]"

section \<open>The entry point: \<^verbatim>\<open>main\<close>\<close>

definition main :: "('w, 'b) env \<Rightarrow> args \<Rightarrow> (unit, 'w, 'b) prog" where
  "main env a = seq_all
     [ AdvBert_init env a,
       when_do (adversarial a) (AdvBert_train_adv env a),
       when_do (n_refinement a > 0) (AdvBert_refine env a),
       when_do (pred a) (AdvBert_pred env a) ]"

section \<open>Reading traces\<close>

text \<open>
  The events of one iteration of the batch loop that returns, for the \<open>j\<close>-th batch of the
  epoch (counting from one): the two encoder calls and the discriminator step, a mapping step
  when \<open>j\<close> is a multiple of \<^verbatim>\<open>dis_steps\<close>, a log line when it is a multiple of
  \<^verbatim>\<open>print_every_dis_steps\<close>.
\<close>

definition batch_events :: "args \<Rightarrow> int \<Rightarrow> 'b \<Rightarrow> 'b event list" where
  "batch_events a j b =
     [GetBertSrc b, GetBertTgt b, DisStep b]
     @ (if j mod dis_steps a = 0 then [MappingStep] else [])
     @ (if j mod print_every_dis_steps a = 0 then [LogStats j] else [])"

text \<open>The events of an epoch after its batches, for the score \<open>v\<close> and the rate \<open>x\<close> read.\<close>

definition epoch_tail :: "args \<Rightarrow> pyfloat \<Rightarrow> pyfloat \<Rightarrow> 'b event list" where
  "epoch_tail a v x =
     [SentSim v, EvalDis, SaveBest v, LoggerInfo ''End of epoch'', UpdateLr v, ReadLr x]
     @ (if flt_lt x (min_lr a) then [LoggerInfo ''Learning rate < 1e-6. BREAK.''] else [])"

fun is_step :: "'b event \<Rightarrow> bool" where
  "is_step (DisStep _) = True"
| "is_step MappingStep = True"
| "is_step _ = False"

fun is_sent_sim :: "'b event \<Rightarrow> bool" where
  "is_sent_sim (SentSim _) = True"
| "is_sent_sim _ = False"

fun batch_kind :: "'b event \<Rightarrow> bool" where
  "batch_kind (GetBertSrc _) = True"
| "batch_kind (GetBertTgt _) = True"
| "batch_kind (DisStep _) = True"
| "batch_kind MappingStep = True"
| "batch_kind (LogStats _) = True"
| "batch_kind _ = False"

text \<open>The phases entered in a trace, in order.\<close>

definition entered :: "'b event list \<Rightarrow> phase list" where
  "entered tr = concat (map (\<lambda>ev. case ev of Enter p \<Rightarrow> [p] | _ \<Rightarrow> []) tr)"

text \<open>A program that, from any state, emits only events of the set \<open>S\<close>.\<close>

definition emits_only :: "'b event set \<Rightarrow> ('a, 'w, 'b) prog \<Rightarrow> bool" where
  "emits_only S m = (\<forall>s. set (snd (m s)) \<subseteq> S)"

text \<open>The events that do not mark the start of a phase.\<close>

definition no_enter :: "'b event set" where
  "no_enter = {ev. \<forall>p. ev \<noteq> Enter p}"

section \<open>Concrete inputs\<close>

text \<open>
  A small run to evaluate the driver on: the state of the collaborators counts the calls of
  \<^verbatim>\<open>update_lr\<close>, each of which divides the learning rate by ten; an epoch has three batches; the
  only file on disk is \<^verbatim>\<open>corpus.txt\<close>; the prediction set is one sentence of one token.
\<close>

definition example_env :: "(nat, nat) env" where
  "example_env =
     \<lparr> effect = (\<lambda>ev w. case ev of UpdateLr _ \<Rightarrow> Suc w | _ \<Rightarrow> w),
       isfile = (\<lambda>w f. f = ''corpus.txt''),
       train_loader = (\<lambda>n w. [10, 11, 12]),
       mapping_step_words = (\<lambda>w. 32),
       sent_sim_value = (\<lambda>w. Fin (real w)),
       map_lr = (\<lambda>w. Fin (1 / 10 ^ w)),
       pred_loader = (\<lambda>w. [ [0] ]),
       pred_features = (\<lambda>w. [\<lparr>unique_id = 0, tokens = [''hello'']\<rparr>]),
       mapped_layer = (\<lambda>w b i. [Fin (1 / 3)]),
       round6 = (\<lambda>x. x) \<rparr>"

definition example_args :: args where
  "example_args =
     \<lparr> dis_dropout = Fin 0, dis_input_dropout = Fin (1 / 10), dis_steps = 2,
       dis_lambda = Fin 1, dis_smooth = Fin (1 / 10), adversarial = True, n_epochs = 5,
       min_lr = Fin (1 / 50), lr_shrink = Fin (1 / 2), n_refinement = 2,
       model_path = Some ''dumped'', input_file = Some ''corpus.txt'',
       print_every_dis_steps = 100, pred = True, src_file = Some ''src.txt'',
       output_file = Some ''out.json'' \<rparr>"

definition fresh :: "nat obj" where
  "fresh = \<lparr>world = 0, attrs = []\<rparr>"

section \<open>Running a program step by step\<close>

lemma bind_prog_return: "bind_prog (return_val a) f s = f a s"
  by (simp add: bind_prog_def return_val_def split: prod.splits)

lemma bind_prog_raise: "bind_prog (raise_err e) f s = (Inl e, [])"
  by (simp add: bind_prog_def raise_err_def)

lemma fst_bind_prog:
  "fst (bind_prog m f s) = (case fst (m s) of Inl e \<Rightarrow> Inl e | Inr (x, s') \<Rightarrow> fst (f x s'))"
  by (simp add: bind_prog_def split: prod.splits sum.splits)

lemma snd_bind_prog:
  "snd (bind_prog m f s) =
     snd (m s) @ (case fst (m s) of Inl e \<Rightarrow> [] | Inr (x, s') \<Rightarrow> snd (f x s'))"
  by (simp add: bind_prog_def split: prod.splits sum.splits)

lemma bind_prog_call:
  "bind_prog (call env ev) f s =
     (fst (f () (s\<lparr>world := effect env ev (world s)\<rparr>)),
      ev # snd (f () (s\<lparr>world := effect env ev (world s)\<rparr>)))"
  by (simp add: bind_prog_def call_def split: prod.splits)

lemma bind_prog_mark:
  "bind_prog (mark ev) f s = (fst (f () s), ev # snd (f () s))"
  by (simp add: bind_prog_def mark_def split: prod.splits)

lemma bind_prog_logger_info:
  "bind_prog (logger_info msg) f s = (fst (f () s), LoggerInfo msg # snd (f () s))"
  by (simp add: bind_prog_def logger_info_def split: prod.splits)

lemma bind_prog_setattr:
  "bind_prog (setattr_self n) f s = f () (s\<lparr>attrs := n # attrs s\<rparr>)"
  by (simp add: bind_prog_def setattr_self_def split: prod.splits)

lemma bind_prog_getattr:
  "bind_prog (getattr_self n) f s =
     (if n \<in> set (attrs s) then f () s else (Inl (AttributeError n), []))"
  by (simp add: bind_prog_def getattr_self_def split: prod.splits)

lemma bind_prog_assert:
  "bind_prog (py_assert c) f s = (if c then f () s else (Inl AssertionError, []))"
  by (simp add: py_assert_def bind_prog_return bind_prog_raise)

lemma bind_prog_when_False: "bind_prog (when_do False m) f s = f () s"
  by (simp add: when_do_def bind_prog_return)

lemma when_do_True: "when_do True m = m"
  by (simp add: when_do_def)

lemma bind_prog_assoc:
  "bind_prog (bind_prog m f) g = bind_prog m (\<lambda>x. bind_prog (f x) g)"
  by (rule ext) (simp add: bind_prog_def split: prod.splits sum.splits)

lemma bind_prog_unit_return: "bind_prog m (\<lambda>_. return_val ()) = (m :: (unit, 'w, 'b) prog)"
  by (rule ext) (simp add: bind_prog_def return_val_def split: prod.splits sum.splits)

lemma bind_prog_return_right: "bind_prog m return_val = m"
  by (rule ext) (simp add: bind_prog_def return_val_def split: prod.splits sum.splits)

lemma bind_prog_assert_isfile:
  "bind_prog (assert_isfile env p) f s =
     (case p of None \<Rightarrow> (Inl TypeError, [])
      | Some x \<Rightarrow> if isfile env (world s) x then f () s else (Inl AssertionError, []))"
  by (simp add: assert_isfile_def bind_prog_def raise_err_def py_assert_def return_val_def
           split: option.splits)

lemma bind_prog_sent_sim:
  "bind_prog (evaluator_sent_sim env) f s =
     (fst (f (sent_sim_value env (world s))
             (s\<lparr>world := effect env (SentSim (sent_sim_value env (world s))) (world s)\<rparr>)),
      SentSim (sent_sim_value env (world s))
        # snd (f (sent_sim_value env (world s))
                 (s\<lparr>world := effect env (SentSim (sent_sim_value env (world s))) (world s)\<rparr>)))"
  by (simp add: bind_prog_def evaluator_sent_sim_def Let_def split: prod.splits)

lemma bind_prog_mapping_step:
  "bind_prog (trainer_mapping_step env) f s =
     (fst (f (mapping_step_words env (world s)) (s\<lparr>world := effect env MappingStep (world s)\<rparr>)),
      MappingStep
        # snd (f (mapping_step_words env (world s)) (s\<lparr>world := effect env MappingStep (world s)\<rparr>)))"
  by (simp add: bind_prog_def trainer_mapping_step_def split: prod.splits)

lemma bind_prog_read_map_lr:
  "bind_prog (read_map_lr env) f s =
     (fst (f (map_lr env (world s)) s), ReadLr (map_lr env (world s)) # snd (f (map_lr env (world s)) s))"
  by (simp add: bind_prog_def read_map_lr_def Let_def split: prod.splits)

lemma bind_prog_py_mod:
  "bind_prog (lift_result (py_mod x y)) f s =
     (if y = 0 then (Inl ZeroDivisionError, []) else f (x mod y) s)"
  by (simp add: lift_result_def py_mod_def bind_prog_raise bind_prog_return)

lemma bind_prog_Inl: "fst (m s) = Inl e \<Longrightarrow> bind_prog m f s = (Inl e, snd (m s))"
  by (cases "m s") (simp add: bind_prog_def)

lemma bind_prog_Inr:
  "fst (m s) = Inr (x, s') \<Longrightarrow> bind_prog m f s = (fst (f x s'), snd (m s) @ snd (f x s'))"
  by (cases "m s") (simp add: bind_prog_def split: prod.splits)

lemmas prog_simps =
  bind_prog_return bind_prog_raise bind_prog_call bind_prog_mark bind_prog_logger_info
  bind_prog_setattr bind_prog_getattr bind_prog_assert bind_prog_when_False when_do_True
  bind_prog_assoc

section \<open>Which events a program can emit\<close>

lemma emits_onlyD: "emits_only S m \<Longrightarrow> set (snd (m s)) \<subseteq> S"
  by (simp add: emits_only_def)

lemma emits_only_return: "emits_only S (return_val x)"
  by (simp add: emits_only_def return_val_def)

lemma emits_only_raise: "emits_only S (raise_err e)"
  by (simp add: emits_only_def raise_err_def)

lemma emits_only_bind:
  assumes "emits_only S m" and "\<And>x. emits_only S (f x)"
  shows "emits_only S (bind_prog m f)"
  unfolding emits_only_def
proof
  fix s
  have "set (snd (m s)) \<subseteq> S"
    using assms(1) by (rule emits_onlyD)
  moreover have "set (snd (f x s')) \<subseteq> S" for x s'
    using assms(2) by (rule emits_onlyD)
  ultimately show "set (snd (bind_prog m f s)) \<subseteq> S"
    by (cases "fst (m s)") (auto simp: snd_bind_prog)
qed

lemma emits_only_call: "ev \<in> S \<Longrightarrow> emits_only S (call env ev)"
  by (simp add: emits_only_def call_def)

lemma emits_only_mark: "ev \<in> S \<Longrightarrow> emits_only S (mark ev)"
  by (simp add: emits_only_def mark_def)

lemma emits_only_logger_info: "LoggerInfo msg \<in> S \<Longrightarrow> emits_only S (logger_info msg)"
  by (simp add: emits_only_def logger_info_def)

lemma emits_only_setattr: "emits_only S (setattr_self n)"
  by (simp add: emits_only_def setattr_self_def)

lemma emits_only_getattr: "emits_only S (getattr_self n)"
  by (simp add: emits_only_def getattr_self_def)

lemma emits_only_assert: "emits_only S (py_assert c)"
  by (simp add: py_assert_def emits_only_return emits_only_raise)

lemma emits_only_when: "emits_only S m \<Longrightarrow> emits_only S (when_do c m)"
  by (simp add: when_do_def emits_only_return)

lemma emits_only_lift: "emits_only S (lift_result r)"
  by (simp add: lift_result_def emits_only_return emits_only_raise split: sum.splits)

lemma emits_only_if:
  "emits_only S m \<Longrightarrow> emits_only S m' \<Longrightarrow> emits_only S (if c then m else m')"
  by simp

lemma emits_only_seq_all: "(\<And>m. m \<in> set ms \<Longrightarrow> emits_only S m) \<Longrightarrow> emits_only S (seq_all ms)"
  by (induction ms) (auto intro: emits_only_return emits_only_bind)

lemma emits_only_assert_isfile: "emits_only S (assert_isfile env p)"
  by (simp add: emits_only_def assert_isfile_def raise_err_def py_assert_def return_val_def
        split: option.splits)

lemma emits_only_mapping_step: "MappingStep \<in> S \<Longrightarrow> emits_only S (trainer_mapping_step env)"
  by (simp add: emits_only_def trainer_mapping_step_def)

lemma emits_only_sent_sim: "range SentSim \<subseteq> S \<Longrightarrow> emits_only S (evaluator_sent_sim env)"
  by (auto simp: emits_only_def evaluator_sent_sim_def Let_def)

lemma emits_only_read_map_lr: "range ReadLr \<subseteq> S \<Longrightarrow> emits_only S (read_map_lr env)"
  by (auto simp: emits_only_def read_map_lr_def Let_def)

lemmas emits_only_intros =
  emits_only_return emits_only_raise emits_only_bind emits_only_call emits_only_mark
  emits_only_logger_info emits_only_setattr emits_only_getattr emits_only_assert
  emits_only_when emits_only_lift emits_only_if emits_only_assert_isfile
  emits_only_mapping_step emits_only_sent_sim emits_only_read_map_lr

section \<open>Construction\<close>

lemma init_asserts:
  assumes "\<not> ((flt_le (Fin 0) (dis_dropout a) \<and> flt_lt (dis_dropout a) (Fin 1))
            \<and> (flt_le (Fin 0) (dis_input_dropout a) \<and> flt_lt (dis_input_dropout a) (Fin 1))
            \<and> (flt_le (Fin 0) (dis_smooth a) \<and> flt_lt (dis_smooth a) (Fin (1/2)))
            \<and> (flt_lt (Fin 0) (dis_lambda a) \<and> dis_steps a > 0)
            \<and> (flt_lt (Fin 0) (lr_shrink a) \<and> flt_le (lr_shrink a) (Fin 1)))"
  shows "AdvBert_init env a s = (Inl AssertionError, [])"
  using assms unfolding AdvBert_init_def
  by (simp only: seq_all.simps prog_simps split: if_splits) blast

lemma in_half_open_iff:
  "(flt_le (Fin lo) x \<and> flt_lt x (Fin hi)) = (x \<in> Fin ` {lo..<hi})"
  by (cases x) auto

lemma in_open_closed_iff:
  "(flt_lt (Fin lo) x \<and> flt_le x (Fin hi)) = (x \<in> Fin ` {lo<..hi})"
  by (cases x) auto

lemma Fin_image_iff: "(Fin x \<in> Fin ` S) = (x \<in> S)"
  by auto

lemma flt_le_not_gt: "flt_le x (Fin 0) \<Longrightarrow> \<not> flt_lt (Fin 0) x"
  by (cases x) auto

text \<open>
  C2. A configuration whose \<^verbatim>\<open>dis_dropout\<close> or \<^verbatim>\<open>dis_input_dropout\<close> is outside \<open>[0,1)\<close>, whose
  \<^verbatim>\<open>dis_smooth\<close> is outside \<open>[0,0.5)\<close>, whose \<^verbatim>\<open>dis_lambda\<close> or \<^verbatim>\<open>dis_steps\<close> is not positive, or
  whose \<^verbatim>\<open>lr_shrink\<close> is outside \<open>(0,1]\<close> makes the constructor raise \<^verbatim>\<open>AssertionError\<close> with
  no collaborator called: nothing is loaded or built, no batch is processed. A value that is
  not a finite number is outside every interval.
\<close>

theorem init_rejects_out_of_range:
  assumes "dis_dropout a \<notin> Fin ` {0..<1} \<or> dis_input_dropout a \<notin> Fin ` {0..<1}
         \<or> dis_smooth a \<notin> Fin ` {0..<1/2} \<or> flt_le (dis_lambda a) (Fin 0)
         \<or> dis_steps a \<le> 0 \<or> lr_shrink a \<notin> Fin ` {0<..1}"
  shows "AdvBert_init env a s = (Inl AssertionError, [])"
proof (rule init_asserts)
  from assms
  show "\<not> ((flt_le (Fin 0) (dis_dropout a) \<and> flt_lt (dis_dropout a) (Fin 1))
            \<and> (flt_le (Fin 0) (dis_input_dropout a) \<and> flt_lt (dis_input_dropout a) (Fin 1))
            \<and> (flt_le (Fin 0) (dis_smooth a) \<and> flt_lt (dis_smooth a) (Fin (1/2)))
            \<and> (flt_lt (Fin 0) (dis_lambda a) \<and> dis_steps a > 0)
            \<and> (flt_lt (Fin 0) (lr_shrink a) \<and> flt_le (lr_shrink a) (Fin 1)))"
    unfolding in_half_open_iff in_open_closed_iff
    using flt_le_not_gt [of "dis_lambda a"] by linarith
qed

theorem init_rejects_out_of_range_witness:
  "dis_smooth (example_args\<lparr>dis_smooth := Fin (1 / 2)\<rparr>) \<notin> Fin ` {0..<1/2}
   \<and> AdvBert_init example_env (example_args\<lparr>dis_smooth := Fin (1 / 2)\<rparr>) fresh
       = (Inl AssertionError, [])"
  using init_rejects_out_of_range
    [where a = "example_args\<lparr>dis_smooth := Fin (1 / 2)\<rparr>" and env = example_env and s = fresh]
  by (simp add: example_args_def Fin_image_iff)

lemma init_missing_file:
  assumes "adversarial a"
    and "\<forall>f. input_file a = Some f \<longrightarrow> \<not> isfile env (effect env InitializeExp w) f"
  shows "AdvBert_init env a \<lparr>world = w, attrs = []\<rparr>
           \<in> {(Inl AssertionError, []), (Inl AssertionError, [InitializeExp]),
              (Inl TypeError, [InitializeExp])}"
  using assms unfolding AdvBert_init_def
  by (simp add: prog_simps bind_prog_assert_isfile split: option.splits)

text \<open>
  C10. With the adversarial flag off, construction of a new object always fails: either an
  assertion on the options fails, or the experiment is initialised and the model built, and
  reading \<^verbatim>\<open>self.dataset\<close> for the trainer raises \<^verbatim>\<open>AttributeError\<close>, since only the
  adversarial branch binds that attribute.
\<close>

theorem init_fails_without_adversarial:
  assumes "\<not> adversarial a"
  shows "AdvBert_init env a \<lparr>world = w, attrs = []\<rparr>
           \<in> {(Inl AssertionError, []),
              (Inl (AttributeError ''dataset''), [InitializeExp, BuildModel])}"
  using assms unfolding AdvBert_init_def
  by (simp add: prog_simps)

theorem init_fails_without_adversarial_witness:
  "\<not> adversarial (example_args\<lparr>adversarial := False\<rparr>)
   \<and> AdvBert_init example_env (example_args\<lparr>adversarial := False\<rparr>) \<lparr>world = 0, attrs = []\<rparr>
       = (Inl (AttributeError ''dataset''), [InitializeExp, BuildModel])"
  using init_fails_without_adversarial
    [where a = "example_args\<lparr>adversarial := False\<rparr>" and env = example_env and w = 0]
  by (simp add: example_args_def AdvBert_init_def prog_simps)

section \<open>The example run, evaluated\<close>

lemma example_env_simps:
  "effect example_env ev w = (case ev of UpdateLr _ \<Rightarrow> Suc w | _ \<Rightarrow> w)"
  "isfile example_env w f = (f = ''corpus.txt'')"
  "train_loader example_env k w = [10, 11, 12]"
  "mapping_step_words example_env w = 32"
  "sent_sim_value example_env w = Fin (real w)"
  "map_lr example_env w = Fin (1 / 10 ^ w)"
  by (simp_all add: example_env_def)

lemma example_args_simps:
  "dis_steps example_args = 2"
  "print_every_dis_steps example_args = 100"
  "min_lr example_args = Fin (1 / 50)"
  "n_epochs example_args = 5"
  "n_refinement example_args = 2"
  "adversarial example_args"
  "pred example_args"
  by (simp_all add: example_args_def)

lemma example_train_batch:
  "train_batch example_env example_args b (d, m, k) \<lparr>world = w, attrs = xs\<rparr>
     = (Inr ((d + 1, (if (d + 1) mod 2 = 0 then m + 1 else m),
              (if (d + 1) mod 100 = 0 then 0 else if (d + 1) mod 2 = 0 then k + 32 else k)),
             \<lparr>world = w, attrs = xs\<rparr>),
        batch_events example_args (d + 1) b)"
  by (simp add: train_batch_def prog_simps bind_prog_py_mod bind_prog_mapping_step
        example_env_simps example_args_simps return_val_def batch_events_def)


lemma bind_prog_case:
  "bind_prog m f s =
     (case m s of
        (Inl e, tr) \<Rightarrow> (Inl e, tr)
      | (Inr (x, s'), tr) \<Rightarrow> (fst (f x s'), tr @ snd (f x s')))"
  by (simp add: bind_prog_def split: prod.splits sum.splits)

lemmas bind_train_batch = bind_prog_case [of "train_batch env a b c" for env a b c]
lemmas bind_batch_loop = bind_prog_case [of "batch_loop env a bs c" for env a bs c]

lemma example_batch_loop:
  "batch_loop example_env example_args [10, 11, 12] (0, 0, 0) \<lparr>world = w, attrs = xs\<rparr>
     = (Inr ((3, 1, 32), \<lparr>world = w, attrs = xs\<rparr>),
        [GetBertSrc 10, GetBertTgt 10, DisStep 10, GetBertSrc 11, GetBertTgt 11, DisStep 11,
         MappingStep, GetBertSrc 12, GetBertTgt 12, DisStep 12])"
  by (simp add: bind_train_batch example_train_batch return_val_def batch_events_def
        example_args_simps)

lemma example_epoch:
  "train_epoch example_env example_args k \<lparr>world = w, attrs = xs\<rparr>
     = (Inr (flt_lt (Fin (1 / 10 ^ Suc w)) (Fin (1 / 50)), \<lparr>world = Suc w, attrs = xs\<rparr>),
        LoggerInfo ''Starting adversarial training epoch''
        # [GetBertSrc 10, GetBertTgt 10, DisStep 10, GetBertSrc 11, GetBertTgt 11, DisStep 11,
           MappingStep, GetBertSrc 12, GetBertTgt 12, DisStep 12]
        @ epoch_tail example_args (Fin (real w)) (Fin (1 / 10 ^ Suc w)))"
  unfolding train_epoch_def
  by (simp add: bind_batch_loop example_batch_loop prog_simps
        bind_prog_sent_sim bind_prog_read_map_lr return_val_def example_env_simps
        example_args_simps epoch_tail_def del: batch_loop.simps)

section \<open>Adversarial training\<close>

lemma train_batch_eq:
  "train_batch env a b (d, m, w) s =
     (if dis_steps a = 0 then (Inl ZeroDivisionError, [GetBertSrc b, GetBertTgt b, DisStep b])
      else if print_every_dis_steps a = 0
      then (Inl ZeroDivisionError,
            [GetBertSrc b, GetBertTgt b, DisStep b]
            @ (if (d + 1) mod dis_steps a = 0 then [MappingStep] else []))
      else (fst (train_batch env a b (d, m, w) s),
            [GetBertSrc b, GetBertTgt b, DisStep b]
            @ (if (d + 1) mod dis_steps a = 0 then [MappingStep] else [])
            @ (if (d + 1) mod print_every_dis_steps a = 0 then [LogStats (d + 1)] else [])))"
  by (simp add: train_batch_def prog_simps bind_prog_py_mod bind_prog_mapping_step
        return_val_def)

lemma train_batch_counters:
  assumes "fst (train_batch env a b (d, m, w) s) = Inr ((d', m', w'), s')"
  shows "d' = d + 1 \<and> m' = (if (d + 1) mod dis_steps a = 0 then m + 1 else m)
         \<and> dis_steps a \<noteq> 0 \<and> print_every_dis_steps a \<noteq> 0"
  using assms
  by (simp add: train_batch_def prog_simps bind_prog_py_mod bind_prog_mapping_step
        return_val_def split: if_splits)

lemma train_batch_returns:
  assumes "fst (train_batch env a b (d, m, w) s) = Inr (c', s')"
  shows "snd (train_batch env a b (d, m, w) s) = batch_events a (d + 1) b"
    and "fst c' = d + 1"
    and "fst (snd c') = (if (d + 1) mod dis_steps a = 0 then m + 1 else m)"
proof -
  obtain d' m' w' where c': "c' = (d', m', w')" by (cases c') auto
  from train_batch_counters [OF assms [unfolded c']]
  have *: "d' = d + 1" "m' = (if (d + 1) mod dis_steps a = 0 then m + 1 else m)"
    "dis_steps a \<noteq> 0" "print_every_dis_steps a \<noteq> 0" by auto
  show "snd (train_batch env a b (d, m, w) s) = batch_events a (d + 1) b"
    using * by (subst train_batch_eq) (simp add: batch_events_def)
  show "fst c' = d + 1" using * c' by simp
  show "fst (snd c') = (if (d + 1) mod dis_steps a = 0 then m + 1 else m)"
    using * c' by simp
qed

lemma div_step:
  fixes k K :: int
  assumes "0 < K"
  shows "(k + 1) div K = (if (k + 1) mod K = 0 then k div K + 1 else k div K)"
proof -
  define q r where "q = k div K" and "r = k mod K"
  have k: "k = K * q + r" and r: "0 \<le> r" "r < K"
    using assms by (simp_all add: q_def r_def)
  show ?thesis
  proof (cases "r + 1 = K")
    case True
    then have "k + 1 = K * (q + 1) + 0" using k by (simp add: algebra_simps)
    then have "(k + 1) div K = q + 1" "(k + 1) mod K = 0"
      using assms by (auto intro: int_div_pos_eq int_mod_pos_eq)
    then show ?thesis by (simp add: q_def)
  next
    case False
    then have lt: "r + 1 < K" using r by simp
    have "k + 1 = K * q + (r + 1)" using k by simp
    then have "(k + 1) div K = q" "(k + 1) mod K = r + 1"
      using lt r by (auto intro: int_div_pos_eq int_mod_pos_eq)
    then show ?thesis using r by (simp add: q_def)
  qed
qed

lemma batch_loop_returns:
  assumes "fst (batch_loop env a bs (int k, m, w) s) = Inr ((d', m', w'), s')"
  shows "snd (batch_loop env a bs (int k, m, w) s)
           = concat (map (\<lambda>(j, b). batch_events a (int j) b) (enumerate (Suc k) bs))
         \<and> d' = int (k + length bs)
         \<and> m' = m + int (length (filter (\<lambda>e. e = MappingStep)
                                    (snd (batch_loop env a bs (int k, m, w) s))))
         \<and> (0 < dis_steps a \<longrightarrow> m = int k div dis_steps a
               \<longrightarrow> m' = int (k + length bs) div dis_steps a)"
  using assms
proof (induction bs arbitrary: k m w s)
  case Nil
  then show ?case by (simp add: return_val_def)
next
  case (Cons b bs)
  let ?tb = "train_batch env a b (int k, m, w) s"
  from Cons.prems obtain c1 s1 where tb: "fst ?tb = Inr (c1, s1)"
    by (auto simp: fst_bind_prog split: sum.splits)
  obtain d1 m1 w1 where c1: "c1 = (d1, m1, w1)" by (cases c1) auto
  from train_batch_returns [OF tb] c1
  have ev: "snd ?tb = batch_events a (int k + 1) b"
    and d1: "d1 = int (Suc k)"
    and m1: "m1 = (if (int k + 1) mod dis_steps a = 0 then m + 1 else m)"
    by simp_all
  from Cons.prems tb c1 d1
  have rest: "fst (batch_loop env a bs (int (Suc k), m1, w1) s1) = Inr ((d', m', w'), s')"
    by (simp add: fst_bind_prog)
  let ?rest = "snd (batch_loop env a bs (int (Suc k), m1, w1) s1)"
  from Cons.IH [OF rest]
  have ih1: "?rest = concat (map (\<lambda>(j, b). batch_events a (int j) b) (enumerate (Suc (Suc k)) bs))"
    and ih2: "d' = int (Suc k + length bs)"
    and ih3: "m' = m1 + int (length (filter (\<lambda>e. e = MappingStep) ?rest))"
    and ih4: "0 < dis_steps a \<longrightarrow> m1 = int (Suc k) div dis_steps a
                \<longrightarrow> m' = int (Suc k + length bs) div dis_steps a"
    by blast+
  have tr: "snd (batch_loop env a (b # bs) (int k, m, w) s) = batch_events a (int (Suc k)) b @ ?rest"
    using tb c1 d1 ev by (simp add: snd_bind_prog add.commute)
  have cnt: "int (length (filter (\<lambda>e. e = MappingStep) (batch_events a (int (Suc k)) b)))
               = m1 - m"
    using m1 by (simp add: batch_events_def add.commute)
  have dv: "0 < dis_steps a \<Longrightarrow> m = int k div dis_steps a \<Longrightarrow> m1 = int (Suc k) div dis_steps a"
    using m1 div_step [of "dis_steps a" "int k"] by (simp add: add.commute)
  have g1: "snd (batch_loop env a (b # bs) (int k, m, w) s)
              = concat (map (\<lambda>(j, b). batch_events a (int j) b) (enumerate (Suc k) (b # bs)))"
    unfolding tr ih1 by (simp del: of_nat_Suc)
  have g2: "d' = int (k + length (b # bs))"
    using ih2 by simp
  have g3: "m' = m + int (length (filter (\<lambda>e. e = MappingStep)
                                    (snd (batch_loop env a (b # bs) (int k, m, w) s))))"
    unfolding tr using ih3 cnt by (simp del: of_nat_Suc)
  have g4: "0 < dis_steps a \<longrightarrow> m = int k div dis_steps a
               \<longrightarrow> m' = int (k + length (b # bs)) div dis_steps a"
    using ih4 dv by (simp del: of_nat_Suc)
  from g1 g2 g3 g4 show ?case by blast
qed

lemma emits_only_train_batch: "emits_only (Collect batch_kind) (train_batch env a b c)"
  unfolding train_batch_def
  by (auto intro!: emits_only_intros emits_only_seq_all split: prod.splits)

lemma emits_only_batch_loop: "emits_only (Collect batch_kind) (batch_loop env a bs c)"
  by (induction bs arbitrary: c) (auto intro!: emits_only_intros emits_only_train_batch)

lemma train_epoch_raises:
  assumes "fst (batch_loop env a (train_loader env n (world s)) (0, 0, 0) s) = Inl e"
  shows "train_epoch env a n s
           = (Inl e, LoggerInfo ''Starting adversarial training epoch''
                     # snd (batch_loop env a (train_loader env n (world s)) (0, 0, 0) s))"
  unfolding train_epoch_def
  by (simp add: bind_prog_logger_info bind_prog_Inl [where m = "\<lambda>s. batch_loop env a (train_loader env n (world s)) (0, 0, 0) s", OF assms])

lemma train_epoch_returns:
  assumes "fst (batch_loop env a (train_loader env n (world s)) (0, 0, 0) s) = Inr (c, s1)"
  shows "\<exists>s2. train_epoch env a n s
           = (Inr (flt_lt (map_lr env (world s2)) (min_lr a), s2),
              LoggerInfo ''Starting adversarial training epoch''
              # snd (batch_loop env a (train_loader env n (world s)) (0, 0, 0) s)
              @ epoch_tail a (sent_sim_value env (world s1)) (map_lr env (world s2)))"
  unfolding train_epoch_def
  by (simp add: prog_simps bind_prog_sent_sim bind_prog_read_map_lr epoch_tail_def return_val_def
        bind_prog_Inr [where m = "\<lambda>s. batch_loop env a (train_loader env n (world s)) (0, 0, 0) s", OF assms])

lemma train_epoch_Inr_batch_loop:
  assumes "fst (train_epoch env a n s) = Inr (brk, s')"
  shows "\<exists>c s1. fst (batch_loop env a (train_loader env n (world s)) (0, 0, 0) s) = Inr (c, s1)"
proof (cases "fst (batch_loop env a (train_loader env n (world s)) (0, 0, 0) s)")
  case (Inl e)
  from train_epoch_raises [OF this] assms show ?thesis by simp
next
  case (Inr r)
  then show ?thesis by (cases r) auto
qed

lemma train_epoch_trace:
  assumes "fst (train_epoch env a n s) = Inr (brk, s')"
  shows "\<exists>v d m w s1.
           fst (batch_loop env a (train_loader env n (world s)) (0, 0, 0) s) = Inr ((d, m, w), s1)
         \<and> brk = flt_lt (map_lr env (world s')) (min_lr a)
         \<and> snd (train_epoch env a n s)
             = LoggerInfo ''Starting adversarial training epoch''
               # snd (batch_loop env a (train_loader env n (world s)) (0, 0, 0) s)
               @ epoch_tail a v (map_lr env (world s'))"
proof -
  from train_epoch_Inr_batch_loop [OF assms] obtain c s1
    where b: "fst (batch_loop env a (train_loader env n (world s)) (0, 0, 0) s) = Inr (c, s1)"
    by blast
  obtain d m w where c: "c = (d, m, w)" by (cases c) auto
  from train_epoch_returns [OF b] assms b c show ?thesis by auto
qed

lemma filter_step_batch_events:
  "filter is_step (batch_events a j b)
     = DisStep b # (if j mod dis_steps a = 0 then [MappingStep] else [])"
  by (simp add: batch_events_def)

lemma filter_step_epoch_tail: "filter is_step (epoch_tail a v x) = []"
  by (simp add: epoch_tail_def)

lemma count_mapping_epoch_tail: "filter (\<lambda>e. e = MappingStep) (epoch_tail a v x) = []"
  by (simp add: epoch_tail_def)

text \<open>
  C1. In an epoch that runs to its end, the step events are, batch by batch in the order of the
  loader, one \<^verbatim>\<open>dis_step\<close> on the batch followed at once by one \<^verbatim>\<open>mapping_step\<close> exactly when
  the number of the batch within the epoch (from one) is a multiple of \<^verbatim>\<open>dis_steps\<close>. The
  numbering starts afresh in every epoch, and with \<^verbatim>\<open>dis_steps\<close> positive (as the constructor
  asserts) the epoch makes as many mapping steps as the number of batches divided by it.
\<close>

theorem dis_map_schedule:
  assumes "fst (train_epoch env a n s) = Inr (brk, s')"
  shows "filter is_step (snd (train_epoch env a n s))
           = concat (map (\<lambda>(j, b). DisStep b # (if int j mod dis_steps a = 0 then [MappingStep] else []))
                         (enumerate 1 (train_loader env n (world s))))
       \<and> (0 < dis_steps a \<longrightarrow>
            int (length (filter (\<lambda>e. e = MappingStep) (snd (train_epoch env a n s))))
              = int (length (train_loader env n (world s))) div dis_steps a)"
proof -
  let ?bs = "train_loader env n (world s)"
  let ?B = "batch_loop env a ?bs (0, 0, 0) s"
  from train_epoch_trace [OF assms] obtain v d m w s1
    where b: "fst ?B = Inr ((d, m, w), s1)"
      and tr: "snd (train_epoch env a n s)
                 = LoggerInfo ''Starting adversarial training epoch'' # snd ?B
                   @ epoch_tail a v (map_lr env (world s'))"
    by blast
  from b have b': "fst (batch_loop env a ?bs (int 0, 0, 0) s) = Inr ((d, m, w), s1)" by simp
  note r = batch_loop_returns [OF b']
  have ev: "snd ?B = concat (map (\<lambda>(j, b). batch_events a (int j) b) (enumerate 1 ?bs))"
    using r [THEN conjunct1] by simp
  have cnt: "m = int (length (filter (\<lambda>e. e = MappingStep) (snd ?B)))"
    using r [THEN conjunct2, THEN conjunct2, THEN conjunct1] by simp
  have dv: "0 < dis_steps a \<longrightarrow> m = int (length ?bs) div dis_steps a"
    using r [THEN conjunct2, THEN conjunct2, THEN conjunct2] by simp
  have "filter is_step (snd (train_epoch env a n s)) = filter is_step (snd ?B)"
    unfolding tr by (simp add: filter_step_epoch_tail)
  also have "\<dots> = concat (map (\<lambda>(j, b). DisStep b # (if int j mod dis_steps a = 0 then [MappingStep] else []))
                         (enumerate 1 ?bs))"
    unfolding ev by (simp add: filter_concat comp_def case_prod_unfold filter_step_batch_events)
  finally have g1: "filter is_step (snd (train_epoch env a n s))
           = concat (map (\<lambda>(j, b). DisStep b # (if int j mod dis_steps a = 0 then [MappingStep] else []))
                         (enumerate 1 ?bs))" .
  have "filter (\<lambda>e. e = MappingStep) (snd (train_epoch env a n s))
          = filter (\<lambda>e. e = MappingStep) (snd ?B)"
    unfolding tr by (simp add: count_mapping_epoch_tail)
  with cnt dv have g2: "0 < dis_steps a \<longrightarrow>
            int (length (filter (\<lambda>e. e = MappingStep) (snd (train_epoch env a n s))))
              = int (length ?bs) div dis_steps a"
    by simp
  from g1 g2 show ?thesis by blast
qed

theorem dis_map_schedule_witness:
  "fst (train_epoch example_env example_args 0 fresh) = Inr (False, \<lparr>world = 1, attrs = []\<rparr>)
   \<and> filter is_step (snd (train_epoch example_env example_args 0 fresh))
       = [DisStep 10, DisStep 11, MappingStep, DisStep 12]
   \<and> 0 < dis_steps example_args
   \<and> int (length (filter (\<lambda>e. e = MappingStep)
              (snd (train_epoch example_env example_args 0 fresh)))) = 1"
  using dis_map_schedule [where env = example_env and a = example_args and n = 0 and s = fresh
      and brk = False and s' = "\<lparr>world = 1, attrs = []\<rparr>"]
  by (simp add: fresh_def example_epoch example_env_simps example_args_simps)

lemma filter_sent_sim_batch_events: "filter is_sent_sim (batch_events a j b) = []"
  by (simp add: batch_events_def)

lemma epoch_trace_full:
  assumes "fst (train_epoch env a n s) = Inr (brk, s')"
  shows "\<exists>v. snd (train_epoch env a n s)
           = LoggerInfo ''Starting adversarial training epoch''
             # concat (map (\<lambda>(j, b). batch_events a (int j) b)
                            (enumerate 1 (train_loader env n (world s))))
             @ epoch_tail a v (map_lr env (world s'))"
    and "brk = flt_lt (map_lr env (world s')) (min_lr a)"
proof -
  let ?bs = "train_loader env n (world s)"
  let ?B = "batch_loop env a ?bs (0, 0, 0) s"
  from train_epoch_trace [OF assms] obtain v d m w s1
    where b: "fst ?B = Inr ((d, m, w), s1)"
      and brk: "brk = flt_lt (map_lr env (world s')) (min_lr a)"
      and tr: "snd (train_epoch env a n s)
                 = LoggerInfo ''Starting adversarial training epoch'' # snd ?B
                   @ epoch_tail a v (map_lr env (world s'))"
    by blast
  from b have b': "fst (batch_loop env a ?bs (int 0, 0, 0) s) = Inr ((d, m, w), s1)" by simp
  have ev: "snd ?B = concat (map (\<lambda>(j, b). batch_events a (int j) b) (enumerate 1 ?bs))"
    using batch_loop_returns [OF b', THEN conjunct1] by simp
  show "\<exists>v. snd (train_epoch env a n s)
           = LoggerInfo ''Starting adversarial training epoch''
             # concat (map (\<lambda>(j, b). batch_events a (int j) b) (enumerate 1 ?bs))
             @ epoch_tail a v (map_lr env (world s'))"
    using tr ev by auto
  show "brk = flt_lt (map_lr env (world s')) (min_lr a)" by (rule brk)
qed

text \<open>
  C4. In an epoch that runs to its end, the events after the last batch are: the validation
  score \<^verbatim>\<open>sent_sim\<close> computed, the discriminator evaluated, \<^verbatim>\<open>save_best\<close> called on that score,
  then \<^verbatim>\<open>update_lr\<close> called on the same score, then the learning rate read. The score is
  computed once in the epoch, after every batch has had its steps.
\<close>

theorem epoch_scores_once:
  assumes "fst (train_epoch env a n s) = Inr (brk, s')"
  shows "\<exists>v. snd (train_epoch env a n s)
           = LoggerInfo ''Starting adversarial training epoch''
             # concat (map (\<lambda>(j, b). batch_events a (int j) b)
                            (enumerate 1 (train_loader env n (world s))))
             @ [SentSim v, EvalDis, SaveBest v, LoggerInfo ''End of epoch'', UpdateLr v,
                ReadLr (map_lr env (world s'))]
             @ (if brk then [LoggerInfo ''Learning rate < 1e-6. BREAK.''] else [])
         \<and> filter is_sent_sim (snd (train_epoch env a n s)) = [SentSim v]"
proof -
  from epoch_trace_full [OF assms] obtain v
    where tr: "snd (train_epoch env a n s)
           = LoggerInfo ''Starting adversarial training epoch''
             # concat (map (\<lambda>(j, b). batch_events a (int j) b)
                            (enumerate 1 (train_loader env n (world s))))
             @ epoch_tail a v (map_lr env (world s'))"
      and brk: "brk = flt_lt (map_lr env (world s')) (min_lr a)"
    by blast
  have "filter is_sent_sim (snd (train_epoch env a n s)) = [SentSim v]"
    unfolding tr
    by (simp add: filter_concat comp_def case_prod_unfold filter_sent_sim_batch_events
          epoch_tail_def)
  with tr brk show ?thesis
    by (intro exI [of _ v]) (simp add: epoch_tail_def)
qed

theorem epoch_scores_once_witness:
  "fst (train_epoch example_env example_args 0 fresh) = Inr (False, \<lparr>world = 1, attrs = []\<rparr>)
   \<and> (\<exists>v. snd (train_epoch example_env example_args 0 fresh)
           = LoggerInfo ''Starting adversarial training epoch''
             # concat (map (\<lambda>(j, b). batch_events example_args (int j) b)
                            (enumerate 1 [10, 11, 12]))
             @ [SentSim v, EvalDis, SaveBest v, LoggerInfo ''End of epoch'', UpdateLr v,
                ReadLr (Fin (1 / 10))]
         \<and> filter is_sent_sim (snd (train_epoch example_env example_args 0 fresh)) = [SentSim v])"
  using epoch_scores_once [where env = example_env and a = example_args and n = 0 and s = fresh
      and brk = False and s' = "\<lparr>world = 1, attrs = []\<rparr>"]
  by (simp add: fresh_def example_epoch example_env_simps example_args_simps)

lemma split_at_event:
  assumes "e \<notin> set T1" and "T1 @ T2 = pre @ e # post"
  shows "\<exists>pre'. pre = T1 @ pre' \<and> T2 = pre' @ e # post"
  using assms
proof (induction T1 arbitrary: pre)
  case Nil
  then show ?case by simp
next
  case (Cons t T1)
  show ?case
  proof (cases pre)
    case Nil
    with Cons.prems show ?thesis by simp
  next
    case (Cons p pre0)
    with Cons.prems have "e \<notin> set T1" and "T1 @ T2 = pre0 @ e # post" and "p = t"
      by simp_all
    with Cons.IH [of pre0] Cons show ?thesis by auto
  qed
qed

lemma batch_loop_no_ReadLr: "ReadLr x \<notin> set (snd (batch_loop env a bs c s))"
  using emits_onlyD [OF emits_only_batch_loop, of env a bs c s] by auto

lemma train_epoch_Inl:
  assumes "fst (train_epoch env a n s) = Inl e"
  shows "ReadLr x \<notin> set (snd (train_epoch env a n s))"
proof (cases "fst (batch_loop env a (train_loader env n (world s)) (0, 0, 0) s)")
  case (Inl e')
  from train_epoch_raises [OF this] show ?thesis
    by (simp add: batch_loop_no_ReadLr)
next
  case (Inr r)
  obtain c s1 where "r = (c, s1)" by (cases r) auto
  with Inr train_epoch_returns [of env a n s c s1] assms show ?thesis by auto
qed

lemma epoch_loop_Inl:
  "fst (train_epoch env a n s) = Inl e
     \<Longrightarrow> epoch_loop env a (n # ns) s = (Inl e, snd (train_epoch env a n s))"
  by (simp add: bind_prog_Inl)

lemma epoch_loop_Inr:
  "fst (train_epoch env a n s) = Inr (brk, s')
     \<Longrightarrow> epoch_loop env a (n # ns) s
          = (if brk then (Inr ((), s'), snd (train_epoch env a n s))
             else (fst (epoch_loop env a ns s'),
                   snd (train_epoch env a n s) @ snd (epoch_loop env a ns s')))"
  by (simp add: bind_prog_Inr return_val_def)

lemma epoch_trace_split:
  assumes "fst (train_epoch env a n s) = Inr (brk, s')"
  shows "\<exists>E0. snd (train_epoch env a n s)
               = E0 @ ReadLr (map_lr env (world s'))
                      # (if brk then [LoggerInfo ''Learning rate < 1e-6. BREAK.''] else [])
             \<and> (\<forall>x. ReadLr x \<notin> set E0)
             \<and> (\<exists>E1 v. E0 = E1 @ [UpdateLr v])"
proof -
  from train_epoch_trace [OF assms] obtain v d m w s1
    where brk: "brk = flt_lt (map_lr env (world s')) (min_lr a)"
      and tr: "snd (train_epoch env a n s)
                 = LoggerInfo ''Starting adversarial training epoch''
                   # snd (batch_loop env a (train_loader env n (world s)) (0, 0, 0) s)
                   @ epoch_tail a v (map_lr env (world s'))"
    by blast
  let ?E1 = "LoggerInfo ''Starting adversarial training epoch''
             # snd (batch_loop env a (train_loader env n (world s)) (0, 0, 0) s)
             @ [SentSim v, EvalDis, SaveBest v, LoggerInfo ''End of epoch'']"
  have "snd (train_epoch env a n s)
          = (?E1 @ [UpdateLr v]) @ ReadLr (map_lr env (world s'))
                # (if brk then [LoggerInfo ''Learning rate < 1e-6. BREAK.''] else [])"
    unfolding tr by (simp add: epoch_tail_def brk)
  moreover have "\<forall>x. ReadLr x \<notin> set (?E1 @ [UpdateLr v])"
    by (simp add: batch_loop_no_ReadLr)
  ultimately show ?thesis by blast
qed

lemma epoch_loop_floor:
  assumes "snd (epoch_loop env a ns s) = pre @ ReadLr x # post" and "flt_lt x (min_lr a)"
  shows "post = [LoggerInfo ''Learning rate < 1e-6. BREAK.'']
       \<and> (\<exists>s'. fst (epoch_loop env a ns s) = Inr ((), s'))"
  using assms
proof (induction ns arbitrary: s pre)
  case Nil
  then show ?case by (simp add: return_val_def)
next
  case (Cons n ns)
  show ?case
  proof (cases "fst (train_epoch env a n s)")
    case (Inl e)
    from epoch_loop_Inl [OF Inl] Cons.prems(1) train_epoch_Inl [OF Inl, of x]
    show ?thesis by auto
  next
    case (Inr r)
    obtain brk s1 where r: "r = (brk, s1)" by (cases r) auto
    with Inr have ep: "fst (train_epoch env a n s) = Inr (brk, s1)" by simp
    from train_epoch_trace [OF ep]
    have brk: "brk = flt_lt (map_lr env (world s1)) (min_lr a)" by blast
    from epoch_trace_split [OF ep] obtain E0
      where tr: "snd (train_epoch env a n s)
                   = E0 @ ReadLr (map_lr env (world s1))
                          # (if brk then [LoggerInfo ''Learning rate < 1e-6. BREAK.''] else [])"
        and E0: "ReadLr x \<notin> set E0"
      by blast
    note loop = epoch_loop_Inr [OF ep, of ns]
    show ?thesis
    proof (cases brk)
      case True
      with loop tr Cons.prems(1)
      have "E0 @ [ReadLr (map_lr env (world s1)), LoggerInfo ''Learning rate < 1e-6. BREAK.'']
              = pre @ ReadLr x # post"
        by simp
      from split_at_event [OF E0 this] obtain pre'
        where "[ReadLr (map_lr env (world s1)), LoggerInfo ''Learning rate < 1e-6. BREAK.'']
                 = pre' @ ReadLr x # post"
        by blast
      then have "post = [LoggerInfo ''Learning rate < 1e-6. BREAK.'']"
        by (cases pre') (auto simp: Cons_eq_append_conv)
      with loop True show ?thesis by simp
    next
      case False
      let ?rest = "snd (epoch_loop env a ns s1)"
      from loop tr False Cons.prems(1)
      have "E0 @ (ReadLr (map_lr env (world s1)) # ?rest) = pre @ ReadLr x # post"
        by simp
      from split_at_event [OF E0 this] obtain pre'
        where eq: "ReadLr (map_lr env (world s1)) # ?rest = pre' @ ReadLr x # post"
        by blast
      show ?thesis
      proof (cases pre')
        case Nil
        with eq have "x = map_lr env (world s1)" by simp
        with brk False Cons.prems(2) show ?thesis by simp
      next
        case (Cons p pre'')
        with eq have "?rest = pre'' @ ReadLr x # post" by simp
        from Cons.IH [OF this Cons.prems(2)] loop False show ?thesis by simp
      qed
    qed
  qed
qed

lemma train_adv_unfold:
  "AdvBert_train_adv env a s
     = (fst (epoch_loop env a [0 ..< nat (n_epochs a)] s),
        Enter TrainAdv # LoggerInfo ''----> ADVERSARIAL TRAINING <----''
        # snd (epoch_loop env a [0 ..< nat (n_epochs a)] s))"
  by (simp add: AdvBert_train_adv_def prog_simps bind_prog_return_right)

lemma train_adv_floor:
  assumes "snd (AdvBert_train_adv env a s) = pre @ ReadLr x # post" and "flt_lt x (min_lr a)"
  shows "post = [LoggerInfo ''Learning rate < 1e-6. BREAK.'']
       \<and> (\<exists>s'. fst (AdvBert_train_adv env a s) = Inr ((), s'))"
proof -
  let ?T = "snd (epoch_loop env a [0 ..< nat (n_epochs a)] s)"
  have "[Enter TrainAdv, LoggerInfo ''----> ADVERSARIAL TRAINING <----''] @ ?T
          = pre @ ReadLr x # post"
    using assms(1) by (simp add: train_adv_unfold)
  from split_at_event [OF _ this] obtain pre' where "?T = pre' @ ReadLr x # post"
    by auto
  from epoch_loop_floor [OF this assms(2)] show ?thesis
    by (simp add: train_adv_unfold)
qed

lemmas bind_train_epoch = bind_prog_case [of "train_epoch env a n" for env a n]

lemma example_epoch_loop_2:
  "epoch_loop example_env example_args (k # ks) \<lparr>world = Suc 0, attrs = xs\<rparr>
     = (Inr ((), \<lparr>world = 2, attrs = xs\<rparr>),
        [LoggerInfo ''Starting adversarial training epoch'',
         GetBertSrc 10, GetBertTgt 10, DisStep 10, GetBertSrc 11, GetBertTgt 11, DisStep 11,
         MappingStep, GetBertSrc 12, GetBertTgt 12, DisStep 12,
         SentSim (Fin 1), EvalDis, SaveBest (Fin 1), LoggerInfo ''End of epoch'',
         UpdateLr (Fin 1), ReadLr (Fin (1 / 100)),
         LoggerInfo ''Learning rate < 1e-6. BREAK.''])"
  by (simp add: bind_train_epoch example_epoch epoch_tail_def example_args_simps return_val_def)

lemma example_train_adv:
  "AdvBert_train_adv example_env example_args \<lparr>world = 0, attrs = xs\<rparr>
     = (Inr ((), \<lparr>world = 2, attrs = xs\<rparr>),
        [Enter TrainAdv, LoggerInfo ''----> ADVERSARIAL TRAINING <----'',
         LoggerInfo ''Starting adversarial training epoch'',
         GetBertSrc 10, GetBertTgt 10, DisStep 10, GetBertSrc 11, GetBertTgt 11, DisStep 11,
         MappingStep, GetBertSrc 12, GetBertTgt 12, DisStep 12,
         SentSim (Fin 0), EvalDis, SaveBest (Fin 0), LoggerInfo ''End of epoch'',
         UpdateLr (Fin 0), ReadLr (Fin (1 / 10))]
        @ [LoggerInfo ''Starting adversarial training epoch'',
         GetBertSrc 10, GetBertTgt 10, DisStep 10, GetBertSrc 11, GetBertTgt 11, DisStep 11,
         MappingStep, GetBertSrc 12, GetBertTgt 12, DisStep 12,
         SentSim (Fin 1), EvalDis, SaveBest (Fin 1), LoggerInfo ''End of epoch'',
         UpdateLr (Fin 1)]
        @ ReadLr (Fin (1 / 100)) # [LoggerInfo ''Learning rate < 1e-6. BREAK.''])"
proof -
  have up: "[0 ..< nat (n_epochs example_args)] = 0 # [1, 2, 3, 4]"
    by (simp add: example_args_simps upt_rec)
  have first: "epoch_loop example_env example_args (0 # [1, 2, 3, 4]) \<lparr>world = 0, attrs = xs\<rparr>
          = (fst (epoch_loop example_env example_args [1, 2, 3, 4] \<lparr>world = 1, attrs = xs\<rparr>),
             snd (train_epoch example_env example_args 0 \<lparr>world = 0, attrs = xs\<rparr>)
             @ snd (epoch_loop example_env example_args [1, 2, 3, 4] \<lparr>world = 1, attrs = xs\<rparr>))"
    using epoch_loop_Inr [where env = example_env and a = example_args and n = 0 and s = "\<lparr>world = 0, attrs = xs\<rparr>"
        and brk = False and s' = "\<lparr>world = 1, attrs = xs\<rparr>" and ns = "[1, 2, 3, 4]"]
    by (simp add: example_epoch)
  show ?thesis
    unfolding train_adv_unfold up first
    by (simp add: example_epoch_loop_2 example_epoch epoch_tail_def example_args_simps
          del: epoch_loop.simps)
qed

text \<open>
  C3. An epoch that runs to its end finishes with \<^verbatim>\<open>update_lr\<close> and then a read of the learning
  rate of the mapping optimizer. When the rate read is below \<^verbatim>\<open>min_lr\<close> the loop over the
  epochs ends there and \<^verbatim>\<open>train_adv\<close> returns without an exception; otherwise the loop goes on
  with the remaining epochs. In the trace of a whole \<^verbatim>\<open>train_adv\<close>, a read of a rate below
  the minimum is followed by the log line of the break and by nothing else: no later epoch.
\<close>

theorem lr_floor_stops_training:
  "(fst (train_epoch env a n s) = Inr (brk, s') \<longrightarrow>
       (\<exists>E v. snd (train_epoch env a n s)
                = E @ [UpdateLr v, ReadLr (map_lr env (world s'))]
                    @ (if brk then [LoggerInfo ''Learning rate < 1e-6. BREAK.''] else []))
     \<and> brk = flt_lt (map_lr env (world s')) (min_lr a)
     \<and> epoch_loop env a (n # ns) s
         = (if flt_lt (map_lr env (world s')) (min_lr a)
            then (Inr ((), s'), snd (train_epoch env a n s))
            else (fst (epoch_loop env a ns s'),
                  snd (train_epoch env a n s) @ snd (epoch_loop env a ns s'))))
   \<and> (snd (AdvBert_train_adv env a s0) = pre @ ReadLr x # post \<and> flt_lt x (min_lr a) \<longrightarrow>
       post = [LoggerInfo ''Learning rate < 1e-6. BREAK.'']
     \<and> (\<exists>s1. fst (AdvBert_train_adv env a s0) = Inr ((), s1)))"
proof (intro conjI impI)
  assume ep: "fst (train_epoch env a n s) = Inr (brk, s')"
  from epoch_trace_split [OF ep]
  show "\<exists>E v. snd (train_epoch env a n s)
                = E @ [UpdateLr v, ReadLr (map_lr env (world s'))]
                    @ (if brk then [LoggerInfo ''Learning rate < 1e-6. BREAK.''] else [])"
    by auto
  from train_epoch_trace [OF ep]
  show brk: "brk = flt_lt (map_lr env (world s')) (min_lr a)" by blast
  from epoch_loop_Inr [OF ep, of ns] brk
  show "epoch_loop env a (n # ns) s
         = (if flt_lt (map_lr env (world s')) (min_lr a)
            then (Inr ((), s'), snd (train_epoch env a n s))
            else (fst (epoch_loop env a ns s'),
                  snd (train_epoch env a n s) @ snd (epoch_loop env a ns s')))"
    by simp
next
  assume h: "snd (AdvBert_train_adv env a s0) = pre @ ReadLr x # post \<and> flt_lt x (min_lr a)"
  from train_adv_floor [of env a s0 pre x post] h
  show "post = [LoggerInfo ''Learning rate < 1e-6. BREAK.'']"
    and "\<exists>s1. fst (AdvBert_train_adv env a s0) = Inr ((), s1)"
    by blast+
qed

theorem lr_floor_stops_training_witness:
  "fst (train_epoch example_env example_args 0 fresh) = Inr (False, \<lparr>world = 1, attrs = []\<rparr>)
   \<and> False = flt_lt (map_lr example_env (world \<lparr>world = 1 :: nat, attrs = []\<rparr>)) (min_lr example_args)
   \<and> snd (AdvBert_train_adv example_env example_args fresh)
       = [Enter TrainAdv, LoggerInfo ''----> ADVERSARIAL TRAINING <----'',
           LoggerInfo ''Starting adversarial training epoch'',
           GetBertSrc 10, GetBertTgt 10, DisStep 10, GetBertSrc 11, GetBertTgt 11, DisStep 11,
           MappingStep, GetBertSrc 12, GetBertTgt 12, DisStep 12,
           SentSim (Fin 0), EvalDis, SaveBest (Fin 0), LoggerInfo ''End of epoch'',
           UpdateLr (Fin 0), ReadLr (Fin (1 / 10)),
           LoggerInfo ''Starting adversarial training epoch'',
           GetBertSrc 10, GetBertTgt 10, DisStep 10, GetBertSrc 11, GetBertTgt 11, DisStep 11,
           MappingStep, GetBertSrc 12, GetBertTgt 12, DisStep 12,
           SentSim (Fin 1), EvalDis, SaveBest (Fin 1), LoggerInfo ''End of epoch'',
           UpdateLr (Fin 1)]
         @ ReadLr (Fin (1 / 100)) # [LoggerInfo ''Learning rate < 1e-6. BREAK.'']
   \<and> flt_lt (Fin (1 / 100)) (min_lr example_args)
   \<and> (\<exists>s1. fst (AdvBert_train_adv example_env example_args fresh) = Inr ((), s1))"
proof -
  have h1: "fst (train_epoch example_env example_args 0 fresh)
              = Inr (False, \<lparr>world = 1, attrs = []\<rparr>)"
    by (simp add: fresh_def example_epoch)
  have h2: "snd (AdvBert_train_adv example_env example_args fresh)
       = [Enter TrainAdv, LoggerInfo ''----> ADVERSARIAL TRAINING <----'',
           LoggerInfo ''Starting adversarial training epoch'',
           GetBertSrc 10, GetBertTgt 10, DisStep 10, GetBertSrc 11, GetBertTgt 11, DisStep 11,
           MappingStep, GetBertSrc 12, GetBertTgt 12, DisStep 12,
           SentSim (Fin 0), EvalDis, SaveBest (Fin 0), LoggerInfo ''End of epoch'',
           UpdateLr (Fin 0), ReadLr (Fin (1 / 10)),
           LoggerInfo ''Starting adversarial training epoch'',
           GetBertSrc 10, GetBertTgt 10, DisStep 10, GetBertSrc 11, GetBertTgt 11, DisStep 11,
           MappingStep, GetBertSrc 12, GetBertTgt 12, DisStep 12,
           SentSim (Fin 1), EvalDis, SaveBest (Fin 1), LoggerInfo ''End of epoch'',
           UpdateLr (Fin 1)]
         @ ReadLr (Fin (1 / 100)) # [LoggerInfo ''Learning rate < 1e-6. BREAK.'']"
    by (simp add: example_train_adv fresh_def)
  have h3: "flt_lt (Fin (1 / 100)) (min_lr example_args)"
    by (simp add: example_args_simps)
  from h1 h2 h3 lr_floor_stops_training
    [where env = example_env and a = example_args and n = 0 and s = fresh and brk = False
       and s' = "\<lparr>world = 1, attrs = []\<rparr>" and ns = "[1]" and ?s0.0 = fresh
       and pre = "[Enter TrainAdv, LoggerInfo ''----> ADVERSARIAL TRAINING <----'',
           LoggerInfo ''Starting adversarial training epoch'',
           GetBertSrc 10, GetBertTgt 10, DisStep 10, GetBertSrc 11, GetBertTgt 11, DisStep 11,
           MappingStep, GetBertSrc 12, GetBertTgt 12, DisStep 12,
           SentSim (Fin 0), EvalDis, SaveBest (Fin 0), LoggerInfo ''End of epoch'',
           UpdateLr (Fin 0), ReadLr (Fin (1 / 10)),
           LoggerInfo ''Starting adversarial training epoch'',
           GetBertSrc 10, GetBertTgt 10, DisStep 10, GetBertSrc 11, GetBertTgt 11, DisStep 11,
           MappingStep, GetBertSrc 12, GetBertTgt 12, DisStep 12,
           SentSim (Fin 1), EvalDis, SaveBest (Fin 1), LoggerInfo ''End of epoch'',
           UpdateLr (Fin 1)]"
       and x = "Fin (1 / 100)" and post = "[LoggerInfo ''Learning rate < 1e-6. BREAK.'']"]
  show ?thesis by blast
qed

text \<open>
  With both moduli non-zero no iteration raises: every epoch, and the whole of \<^verbatim>\<open>train_adv\<close>,
  returns.
\<close>

lemma train_batch_total:
  assumes "dis_steps a \<noteq> 0" and "print_every_dis_steps a \<noteq> 0"
  shows "\<exists>c' s'. fst (train_batch env a b c s) = Inr (c', s')"
proof -
  obtain d m w where c: "c = (d, m, w)" by (cases c) auto
  show ?thesis
    using assms unfolding c
    by (simp add: train_batch_def prog_simps bind_prog_py_mod bind_prog_mapping_step
          return_val_def)
qed

lemma batch_loop_total:
  assumes "dis_steps a \<noteq> 0" and "print_every_dis_steps a \<noteq> 0"
  shows "\<exists>c' s'. fst (batch_loop env a bs c s) = Inr (c', s')"
proof (induction bs arbitrary: c s)
  case Nil
  show ?case by (cases c) (simp add: return_val_def)
next
  case (Cons b bs)
  from train_batch_total [OF assms, of env b c s] obtain c1 s1
    where tb: "fst (train_batch env a b c s) = Inr (c1, s1)" by blast
  from Cons.IH [of c1 s1] tb show ?case
    by (simp add: fst_bind_prog)
qed

lemma train_epoch_total:
  assumes "dis_steps a \<noteq> 0" and "print_every_dis_steps a \<noteq> 0"
  shows "\<exists>brk s'. fst (train_epoch env a n s) = Inr (brk, s')"
proof -
  from batch_loop_total [OF assms, of env "train_loader env n (world s)" "(0, 0, 0)" s]
  obtain c s1
    where "fst (batch_loop env a (train_loader env n (world s)) (0, 0, 0) s) = Inr (c, s1)"
    by blast
  from train_epoch_returns [OF this] show ?thesis by auto
qed

lemma epoch_loop_total:
  assumes "dis_steps a \<noteq> 0" and "print_every_dis_steps a \<noteq> 0"
  shows "\<exists>s'. fst (epoch_loop env a ns s) = Inr ((), s')"
proof (induction ns arbitrary: s)
  case Nil
  show ?case by (simp add: return_val_def)
next
  case (Cons n ns)
  from train_epoch_total [OF assms, of env n s] obtain brk s1
    where ep: "fst (train_epoch env a n s) = Inr (brk, s1)" by blast
  from epoch_loop_Inr [OF ep, of ns] Cons.IH [of s1] show ?case
    by (cases brk) auto
qed

lemma train_adv_total:
  assumes "dis_steps a \<noteq> 0" and "print_every_dis_steps a \<noteq> 0"
  shows "\<exists>s'. fst (AdvBert_train_adv env a s) = Inr ((), s')"
  using epoch_loop_total [OF assms] by (simp add: train_adv_unfold)

section \<open>Prediction\<close>

lemma pred_missing_file:
  assumes "src_file a = None \<or> output_file a = None"
  shows "AdvBert_pred env a s = (Inl AssertionError, [Enter Predict])"
  using assms unfolding AdvBert_pred_def
  by (auto simp add: prog_simps)

lemma bind_lookup_name_unbound:
  "n \<notin> set pred_scope \<Longrightarrow> bind_prog (lookup_name n) f s = (Inl (NameError n), [])"
  by (simp add: lookup_name_def bind_prog_raise)

lemma load_single_unbound: "''load_single'' \<notin> set pred_scope"
  by (simp add: pred_scope_def pred_locals_def module_globals_def builtins_read_def)

lemma pred_name_error:
  assumes "src_file a \<noteq> None" and "output_file a \<noteq> None"
  shows "AdvBert_pred env a s = (Inl (NameError ''load_single''), [Enter Predict, ReloadBest])"
  using assms unfolding AdvBert_pred_def
  by (simp add: prog_simps bind_lookup_name_unbound load_single_unbound)

lemma unbound_names:
  "set [''load_single'', ''pred_dataset'', ''features'', ''collections'', ''layer_index'']
     \<inter> set pred_scope = {}"
  by (simp add: pred_scope_def pred_locals_def module_globals_def builtins_read_def)

text \<open>
  C7. With the adversarial flag on and the input corpus not on disk when it is checked (or no
  input file given), construction fails, and the only collaborator called before the failure
  is the experiment set-up: nothing is loaded, no model, trainer or evaluator is built. And
  \<^verbatim>\<open>pred\<close> without a source file or without an output file raises \<^verbatim>\<open>AssertionError\<close> on entry:
  the checkpoint is not reloaded and no output is opened or written.
\<close>

theorem missing_inputs_fail_fast:
  "(adversarial a \<and> (\<forall>f. input_file a = Some f \<longrightarrow> \<not> isfile env (effect env InitializeExp w) f)
      \<longrightarrow> AdvBert_init env a \<lparr>world = w, attrs = []\<rparr>
            \<in> {(Inl AssertionError, []), (Inl AssertionError, [InitializeExp]),
               (Inl TypeError, [InitializeExp])})
   \<and> (src_file a = None \<or> output_file a = None
      \<longrightarrow> AdvBert_pred env a s = (Inl AssertionError, [Enter Predict]))"
  using init_missing_file [of a env w] pred_missing_file [of a env s] by blast

theorem missing_inputs_fail_fast_witness:
  "adversarial (example_args\<lparr>input_file := Some ''absent.txt'', output_file := None\<rparr>)
   \<and> \<not> isfile example_env (effect example_env InitializeExp 0) ''absent.txt''
   \<and> AdvBert_init example_env
        (example_args\<lparr>input_file := Some ''absent.txt'', output_file := None\<rparr>)
        \<lparr>world = 0, attrs = []\<rparr>
       = (Inl AssertionError, [InitializeExp])
   \<and> AdvBert_pred example_env
        (example_args\<lparr>input_file := Some ''absent.txt'', output_file := None\<rparr>) fresh
       = (Inl AssertionError, [Enter Predict])"
  using missing_inputs_fail_fast
    [where a = "example_args\<lparr>input_file := Some ''absent.txt'', output_file := None\<rparr>"
       and env = example_env and w = 0 and s = fresh]
  by (simp add: example_args_def example_env_def AdvBert_init_def prog_simps
        bind_prog_assert_isfile)

text \<open>
  C9. Whenever \<^verbatim>\<open>pred\<close> passes its two assertions it reloads the best checkpoint and then
  raises \<^verbatim>\<open>NameError\<close> at \<^verbatim>\<open>load_single\<close>: no output file is opened and no line written. None of
  \<^verbatim>\<open>load_single\<close>, \<^verbatim>\<open>pred_dataset\<close>, \<^verbatim>\<open>features\<close>, \<^verbatim>\<open>collections\<close>, \<^verbatim>\<open>layer_index\<close> is bound in the
  scope of \<^verbatim>\<open>pred\<close> (its locals, the module's globals, the builtins).
\<close>

theorem pred_reaches_unresolved_name:
  assumes "src_file a \<noteq> None" and "output_file a \<noteq> None"
  shows "AdvBert_pred env a s = (Inl (NameError ''load_single''), [Enter Predict, ReloadBest])
       \<and> set [''load_single'', ''pred_dataset'', ''features'', ''collections'', ''layer_index'']
           \<inter> set pred_scope = {}"
  using pred_name_error [OF assms] unbound_names by blast

theorem pred_reaches_unresolved_name_witness:
  "src_file example_args \<noteq> None \<and> output_file example_args \<noteq> None
   \<and> AdvBert_pred example_env example_args fresh
       = (Inl (NameError ''load_single''), [Enter Predict, ReloadBest])"
  using pred_reaches_unresolved_name [where a = example_args and env = example_env and s = fresh]
  by (simp add: example_args_def)

section \<open>Refinement\<close>

lemma refine_iter_eq:
  "refine_iter env n s
     = (Inr ((), s\<lparr>world := effect env (SaveBest (sent_sim_value env (effect env Procrustes (world s))))
                          (effect env (SentSim (sent_sim_value env (effect env Procrustes (world s))))
                             (effect env Procrustes (world s)))\<rparr>),
        [LoggerInfo ''Starting refinement iteration'', Procrustes,
         SentSim (sent_sim_value env (effect env Procrustes (world s))),
         SaveBest (sent_sim_value env (effect env Procrustes (world s))),
         LoggerInfo ''End of refinement iteration''])"
  by (simp add: refine_iter_def prog_simps bind_prog_sent_sim bind_prog_return_right
        logger_info_def)

lemmas bind_refine_iter = bind_prog_case [of "refine_iter env n" for env n]

lemma refine_iters:
  "\<exists>vs s'. length vs = length ns
     \<and> seq_all (map (refine_iter env) ns) s
         = (Inr ((), s'),
            concat (map (\<lambda>v. [LoggerInfo ''Starting refinement iteration'', Procrustes,
                               SentSim v, SaveBest v,
                               LoggerInfo ''End of refinement iteration'']) vs))"
proof (induction ns arbitrary: s)
  case Nil
  show ?case by (simp add: return_val_def)
next
  case (Cons n ns)
  let ?v = "sent_sim_value env (effect env Procrustes (world s))"
  let ?s1 = "s\<lparr>world := effect env (SaveBest ?v) (effect env (SentSim ?v)
                             (effect env Procrustes (world s)))\<rparr>"
  from Cons.IH [of ?s1] obtain vs s'
    where len: "length vs = length ns"
      and eq: "seq_all (map (refine_iter env) ns) ?s1
         = (Inr ((), s'),
            concat (map (\<lambda>v. [LoggerInfo ''Starting refinement iteration'', Procrustes,
                               SentSim v, SaveBest v,
                               LoggerInfo ''End of refinement iteration'']) vs))"
    by blast
  have "seq_all (map (refine_iter env) (n # ns)) s
         = (Inr ((), s'),
            concat (map (\<lambda>v. [LoggerInfo ''Starting refinement iteration'', Procrustes,
                               SentSim v, SaveBest v,
                               LoggerInfo ''End of refinement iteration'']) (?v # vs)))"
    by (simp add: bind_refine_iter refine_iter_eq eq)
  moreover have "length (?v # vs) = length (n # ns)" using len by simp
  ultimately show ?case by blast
qed

lemma refine_unfold:
  "AdvBert_refine env a s
     = (fst (seq_all (map (refine_iter env) [0 ..< nat (n_refinement a)])
               (s\<lparr>world := effect env ReloadBest (world s)\<rparr>)),
        Enter Refine # LoggerInfo ''----> ITERATIVE PROCRUSTES REFINEMENT <----'' # ReloadBest
        # snd (seq_all (map (refine_iter env) [0 ..< nat (n_refinement a)])
                 (s\<lparr>world := effect env ReloadBest (world s)\<rparr>)))"
  by (simp add: AdvBert_refine_def prog_simps)

lemma refine_trace:
  "\<exists>vs s'. length vs = nat (n_refinement a)
      \<and> AdvBert_refine env a s
          = (Inr ((), s'),
             [Enter Refine, LoggerInfo ''----> ITERATIVE PROCRUSTES REFINEMENT <----'', ReloadBest]
             @ concat (map (\<lambda>v. [LoggerInfo ''Starting refinement iteration'', Procrustes,
                                SentSim v, SaveBest v,
                                LoggerInfo ''End of refinement iteration'']) vs))"
proof -
  from refine_iters [of "[0 ..< nat (n_refinement a)]" env
      "s\<lparr>world := effect env ReloadBest (world s)\<rparr>"]
  obtain vs s' where "length vs = nat (n_refinement a)"
    and "seq_all (map (refine_iter env) [0 ..< nat (n_refinement a)])
               (s\<lparr>world := effect env ReloadBest (world s)\<rparr>)
         = (Inr ((), s'),
            concat (map (\<lambda>v. [LoggerInfo ''Starting refinement iteration'', Procrustes,
                               SentSim v, SaveBest v,
                               LoggerInfo ''End of refinement iteration'']) vs))"
    by auto
  then show ?thesis
    by (intro exI [of _ vs] exI [of _ s']) (simp add: refine_unfold)
qed

text \<open>
  C5. \<^verbatim>\<open>refine\<close> always returns, and its trace is: the best checkpoint reloaded once, then for
  each of exactly \<^verbatim>\<open>n_refinement\<close> iterations (none for a count below one) the Procrustes
  solution applied, the validation score computed once, and \<^verbatim>\<open>save_best\<close> called on that
  score; nothing ends the loop early. And when \<^verbatim>\<open>pred\<close> passes its assertions, reloading the
  best checkpoint is its first call, before any output.
\<close>

theorem refine_fixed_iterations:
  "(\<exists>vs s'. length vs = nat (n_refinement a)
      \<and> AdvBert_refine env a s
          = (Inr ((), s'),
             [Enter Refine, LoggerInfo ''----> ITERATIVE PROCRUSTES REFINEMENT <----'', ReloadBest]
             @ concat (map (\<lambda>v. [LoggerInfo ''Starting refinement iteration'', Procrustes,
                                SentSim v, SaveBest v,
                                LoggerInfo ''End of refinement iteration'']) vs)))
   \<and> (src_file a \<noteq> None \<and> output_file a \<noteq> None
        \<longrightarrow> (\<exists>rest. snd (AdvBert_pred env a s) = Enter Predict # ReloadBest # rest))"
  using refine_trace [of a env s] pred_name_error [of a env s] by auto

theorem refine_fixed_iterations_witness:
  "src_file example_args \<noteq> None \<and> output_file example_args \<noteq> None
   \<and> nat (n_refinement example_args) = 2
   \<and> (\<exists>vs s'. length vs = 2
      \<and> AdvBert_refine example_env example_args fresh
          = (Inr ((), s'),
             [Enter Refine, LoggerInfo ''----> ITERATIVE PROCRUSTES REFINEMENT <----'', ReloadBest]
             @ concat (map (\<lambda>v. [LoggerInfo ''Starting refinement iteration'', Procrustes,
                                SentSim v, SaveBest v,
                                LoggerInfo ''End of refinement iteration'']) vs)))
   \<and> (\<exists>rest. snd (AdvBert_pred example_env example_args fresh) = Enter Predict # ReloadBest # rest)"
  using refine_fixed_iterations [where a = example_args and env = example_env and s = fresh]
  by (simp add: example_args_def)

section \<open>The order of the phases\<close>

lemma emits_only_mono: "emits_only S m \<Longrightarrow> S \<subseteq> S' \<Longrightarrow> emits_only S' m"
  by (auto simp: emits_only_def)

lemma entered_append: "entered (xs @ ys) = entered xs @ entered ys"
  by (simp add: entered_def)

lemma entered_Cons_Enter: "entered (Enter p # tr) = p # entered tr"
  by (simp add: entered_def)

lemma entered_none: "(\<And>p. Enter p \<notin> set tr) \<Longrightarrow> entered tr = []"
  by (induction tr) (auto simp: entered_def split: event.splits)

lemma entered_quiet: "emits_only no_enter m \<Longrightarrow> entered (snd (m s)) = []"
  using emits_onlyD [of no_enter m s] by (intro entered_none) (auto simp: no_enter_def)

lemma quiet_init: "emits_only no_enter (AdvBert_init env a)"
  unfolding AdvBert_init_def
  by (intro emits_only_seq_all) (auto intro!: emits_only_intros emits_only_seq_all simp: no_enter_def)

lemma quiet_batch_loop: "emits_only no_enter (batch_loop env a bs c)"
  by (rule emits_only_mono [OF emits_only_batch_loop]) (auto simp: no_enter_def)

lemma quiet_batch_loop_state: "emits_only no_enter (\<lambda>s. batch_loop env a (g s) c s)"
  by (simp add: emits_only_def emits_onlyD [OF quiet_batch_loop])

lemma quiet_train_epoch: "emits_only no_enter (train_epoch env a n)"
  unfolding train_epoch_def
  by (intro emits_only_bind quiet_batch_loop_state emits_only_seq_all emits_only_logger_info
        emits_only_sent_sim emits_only_read_map_lr emits_only_if emits_only_return)
     (auto intro!: emits_only_call emits_only_logger_info simp: no_enter_def)

lemma quiet_epoch_loop: "emits_only no_enter (epoch_loop env a ns)"
  by (induction ns) (auto intro!: emits_only_intros quiet_train_epoch)

lemma entered_train_adv: "entered (snd (AdvBert_train_adv env a s)) = [TrainAdv]"
  by (simp add: train_adv_unfold entered_def entered_quiet [OF quiet_epoch_loop, unfolded entered_def])

lemma entered_refine: "entered (snd (AdvBert_refine env a s)) = [Refine]"
  using refine_trace [of a env s] by (auto simp: entered_def)

lemma refine_returns: "\<exists>s'. fst (AdvBert_refine env a s) = Inr ((), s')"
  using refine_trace [of a env s] by auto

lemma entered_pred: "entered (snd (AdvBert_pred env a s)) = [Predict]"
proof (cases "src_file a = None \<or> output_file a = None")
  case True
  from pred_missing_file [OF this, of env s] show ?thesis by (simp add: entered_def)
next
  case False
  then have "src_file a \<noteq> None" "output_file a \<noteq> None" by auto
  from pred_name_error [OF this, of env s] show ?thesis by (simp add: entered_def)
qed

lemma entered_Nil: "entered [] = []"
  by (simp add: entered_def)

lemma entered_when_pred:
  "entered (snd (when_do c (AdvBert_pred env a) s)) = (if c then [Predict] else [])"
  by (simp add: when_do_def entered_pred return_val_def entered_Nil)

lemma entered_refine_pred:
  "entered (snd (bind_prog (when_do r (AdvBert_refine env a))
                   (\<lambda>_. when_do c (AdvBert_pred env a)) s))
     = (if r then [Refine] else []) @ (if c then [Predict] else [])"
proof (cases r)
  case True
  from refine_returns [of env a s] obtain s' where "fst (AdvBert_refine env a s) = Inr ((), s')"
    by blast
  with True show ?thesis
    by (simp add: snd_bind_prog entered_append entered_refine entered_when_pred when_do_True)
next
  case False
  then show ?thesis
    by (simp add: prog_simps entered_when_pred)
qed

lemma entered_phases:
  "entered (snd (bind_prog (when_do t (AdvBert_train_adv env a))
                   (\<lambda>_. bind_prog (when_do r (AdvBert_refine env a))
                           (\<lambda>_. when_do c (AdvBert_pred env a))) s))
     = (if t
        then (case fst (AdvBert_train_adv env a s) of
                Inl e \<Rightarrow> [TrainAdv]
              | Inr x \<Rightarrow> [TrainAdv] @ (if r then [Refine] else []) @ (if c then [Predict] else []))
        else (if r then [Refine] else []) @ (if c then [Predict] else []))"
proof (cases t)
  case True
  show ?thesis
  proof (cases "fst (AdvBert_train_adv env a s)")
    case (Inl e)
    with True show ?thesis
      by (simp add: bind_prog_Inl [where m = "AdvBert_train_adv env a" and s = s, OF Inl] entered_train_adv when_do_True)
  next
    case (Inr x)
    obtain u s' where "x = (u, s')" by (cases x) auto
    with Inr have f: "fst (AdvBert_train_adv env a s) = Inr (u, s')" by simp
    from True show ?thesis
      by (simp add: bind_prog_Inr [where m = "AdvBert_train_adv env a" and s = s, OF f] f entered_append entered_train_adv when_do_True
            entered_refine_pred)
  qed
next
  case False
  then show ?thesis
    by (simp add: bind_prog_when_False entered_refine_pred)
qed

lemma main_unfold:
  "main env a = bind_prog (AdvBert_init env a)
     (\<lambda>_. bind_prog (when_do (adversarial a) (AdvBert_train_adv env a))
             (\<lambda>_. bind_prog (when_do (0 < n_refinement a) (AdvBert_refine env a))
                     (\<lambda>_. when_do (pred a) (AdvBert_pred env a))))"
  by (simp add: main_def bind_prog_return_right)

text \<open>
  The phases entered in a run of \<^verbatim>\<open>main\<close> are always an initial part of the list:
  adversarial training if the adversarial flag is set, then refinement if \<^verbatim>\<open>n_refinement\<close> is
  positive, then prediction if the prediction flag is set. So each phase is entered at most
  once, in that order, and only when its flag selects it. When the constructor returns and
  adversarial training, if selected, returns, the phases entered are exactly that list
  (refinement never raises, and prediction is the last phase).
\<close>

lemma main_phase_order:
  "prefix (entered (snd (main env a s)))
          ((if adversarial a then [TrainAdv] else [])
           @ (if 0 < n_refinement a then [Refine] else [])
           @ (if pred a then [Predict] else []))
   \<and> (fst (AdvBert_init env a s) = Inr ((), s1)
        \<and> (adversarial a \<longrightarrow> (\<exists>s2. fst (AdvBert_train_adv env a s1) = Inr ((), s2)))
      \<longrightarrow> entered (snd (main env a s))
            = (if adversarial a then [TrainAdv] else [])
              @ (if 0 < n_refinement a then [Refine] else [])
              @ (if pred a then [Predict] else []))"
proof (cases "fst (AdvBert_init env a s)")
  case (Inl e)
  then have "entered (snd (main env a s)) = []"
    by (simp add: main_unfold bind_prog_Inl [where m = "AdvBert_init env a" and s = s, OF Inl] entered_quiet [OF quiet_init])
  with Inl show ?thesis by simp
next
  case (Inr r)
  obtain u s1' where r: "r = (u, s1')" by (cases r) auto
  with Inr have f: "fst (AdvBert_init env a s) = Inr (u, s1')" by simp
  have e: "entered (snd (main env a s))
      = entered (snd (bind_prog (when_do (adversarial a) (AdvBert_train_adv env a))
             (\<lambda>_. bind_prog (when_do (0 < n_refinement a) (AdvBert_refine env a))
                     (\<lambda>_. when_do (pred a) (AdvBert_pred env a))) s1'))"
    by (simp add: main_unfold bind_prog_Inr [where m = "AdvBert_init env a" and s = s, OF f] entered_append
          entered_quiet [OF quiet_init])
  show ?thesis
    using Inr r
    unfolding e entered_phases
    by (cases "fst (AdvBert_train_adv env a s1')") auto
qed

lemma example_init:
  "AdvBert_init example_env example_args fresh
     = (Inr ((), \<lparr>world = 0,
                   attrs = [''device'', ''evaluator'', ''trainer'', ''discriminator'', ''mapping'',
                            ''bert_model'', ''features'', ''dataset'', ''logger'', ''args'']\<rparr>),
        [InitializeExp, Load, BuildModel, NewBertTrainer, NewBertEvaluator])"
  unfolding AdvBert_init_def
  by (simp add: prog_simps bind_prog_assert_isfile bind_prog_return_right example_env_simps
        example_args_def fresh_def setattr_self_def)

lemma main_phase_order_example:
  "fst (AdvBert_init example_env example_args fresh)
     = Inr ((), \<lparr>world = 0,
                  attrs = [''device'', ''evaluator'', ''trainer'', ''discriminator'', ''mapping'',
                           ''bert_model'', ''features'', ''dataset'', ''logger'', ''args'']\<rparr>)
   \<and> adversarial example_args \<and> 0 < n_refinement example_args \<and> pred example_args
   \<and> (\<exists>s2. fst (AdvBert_train_adv example_env example_args
                   \<lparr>world = 0,
                    attrs = [''device'', ''evaluator'', ''trainer'', ''discriminator'', ''mapping'',
                             ''bert_model'', ''features'', ''dataset'', ''logger'', ''args'']\<rparr>)
              = Inr ((), s2))
   \<and> entered (snd (main example_env example_args fresh)) = [TrainAdv, Refine, Predict]"
proof -
  let ?s1 = "\<lparr>world = 0 :: nat,
              attrs = [''device'', ''evaluator'', ''trainer'', ''discriminator'', ''mapping'',
                       ''bert_model'', ''features'', ''dataset'', ''logger'', ''args'']\<rparr>"
  have h1: "fst (AdvBert_init example_env example_args fresh) = Inr ((), ?s1)"
    by (simp add: example_init)
  have h2: "\<exists>s2. fst (AdvBert_train_adv example_env example_args ?s1) = Inr ((), s2)"
    by (simp add: example_train_adv)
  have h3: "adversarial example_args" "0 < n_refinement example_args" "pred example_args"
    by (simp_all add: example_args_simps)
  from main_phase_order [where env = example_env and a = example_args and s = fresh
      and ?s1.0 = ?s1] h1 h2 h3
  have "entered (snd (main example_env example_args fresh)) = [TrainAdv, Refine, Predict]"
    by simp
  with h1 h2 h3 show ?thesis by blast
qed

text \<open>
  From a new object with the adversarial flag off the constructor never returns, so \<^verbatim>\<open>main\<close>
  ends there: no phase is entered, whatever \<^verbatim>\<open>n_refinement\<close> and the prediction flag select.
\<close>

lemma init_raises_without_adversarial:
  assumes "\<not> adversarial a"
  shows "\<exists>e. fst (AdvBert_init env a \<lparr>world = w, attrs = []\<rparr>) = Inl e"
proof -
  have "AdvBert_init env a \<lparr>world = w, attrs = []\<rparr>
          \<in> {(Inl AssertionError, []),
             (Inl (AttributeError ''dataset''), [InitializeExp, BuildModel])}"
    using assms unfolding AdvBert_init_def by (simp add: prog_simps)
  then show ?thesis by auto
qed

lemma main_enters_nothing_without_adversarial:
  assumes "\<not> adversarial a"
  shows "entered (snd (main env a \<lparr>world = w, attrs = []\<rparr>)) = []"
    and "\<exists>e. fst (main env a \<lparr>world = w, attrs = []\<rparr>) = Inl e"
proof -
  from init_raises_without_adversarial [OF assms, of env w] obtain e
    where e: "fst (AdvBert_init env a \<lparr>world = w, attrs = []\<rparr>) = Inl e"
    by blast
  note m = bind_prog_Inl [where m = "AdvBert_init env a" and s = "\<lparr>world = w, attrs = []\<rparr>", OF e]
  show "entered (snd (main env a \<lparr>world = w, attrs = []\<rparr>)) = []"
    by (simp add: main_unfold m entered_quiet [OF quiet_init])
  show "\<exists>e. fst (main env a \<lparr>world = w, attrs = []\<rparr>) = Inl e"
    by (simp add: main_unfold m)
qed

text \<open>
  C6. \<^verbatim>\<open>main\<close> tests the three flags one after the other, so that refinement should run
  exactly when \<^verbatim>\<open>n_refinement\<close> is positive and prediction exactly when the prediction flag is
  set. In the example run with the adversarial flag turned off, \<^verbatim>\<open>n_refinement\<close> is two, the
  prediction flag is set and both prediction files are given, yet the run ends in the
  constructor with \<^verbatim>\<open>AttributeError\<close> on \<^verbatim>\<open>self.dataset\<close>, after the experiment set-up and the
  model build only: neither refinement nor prediction is entered.
\<close>

theorem main_adversarial_off_enters_no_phase:
  "adversarial (example_args\<lparr>adversarial := False\<rparr>) = False
   \<and> 0 < n_refinement (example_args\<lparr>adversarial := False\<rparr>)
   \<and> pred (example_args\<lparr>adversarial := False\<rparr>)
   \<and> src_file (example_args\<lparr>adversarial := False\<rparr>) = Some ''src.txt''
   \<and> output_file (example_args\<lparr>adversarial := False\<rparr>) = Some ''out.json''
   \<and> main example_env (example_args\<lparr>adversarial := False\<rparr>) fresh
       = (Inl (AttributeError ''dataset''), [InitializeExp, BuildModel])
   \<and> entered (snd (main example_env (example_args\<lparr>adversarial := False\<rparr>) fresh)) = []"
proof -
  let ?a = "example_args\<lparr>adversarial := False\<rparr>"
  have i: "AdvBert_init example_env ?a fresh
             = (Inl (AttributeError ''dataset''), [InitializeExp, BuildModel])"
    unfolding AdvBert_init_def
    by (simp add: prog_simps example_args_def fresh_def)
  then have f: "fst (AdvBert_init example_env ?a fresh) = Inl (AttributeError ''dataset'')"
    by simp
  have m: "main example_env ?a fresh
             = (Inl (AttributeError ''dataset''), [InitializeExp, BuildModel])"
    by (simp add: main_unfold i
          bind_prog_Inl [where m = "AdvBert_init example_env ?a" and s = fresh, OF f])
  have e: "entered [InitializeExp, BuildModel :: nat event] = []"
    by (simp add: entered_def)
  show ?thesis
    by (simp add: m e) (simp add: example_args_def)
qed

section \<open>The prediction output\<close>

lemma example_main_raises:
  "fst (main example_env example_args fresh) = Inl (NameError ''load_single'')"
proof -
  let ?s1 = "\<lparr>world = 0 :: nat,
              attrs = [''device'', ''evaluator'', ''trainer'', ''discriminator'', ''mapping'',
                       ''bert_model'', ''features'', ''dataset'', ''logger'', ''args'']\<rparr>"
  let ?s2 = "\<lparr>world = 2 :: nat,
              attrs = [''device'', ''evaluator'', ''trainer'', ''discriminator'', ''mapping'',
                       ''bert_model'', ''features'', ''dataset'', ''logger'', ''args'']\<rparr>"
  have f1: "fst (AdvBert_init example_env example_args fresh) = Inr ((), ?s1)"
    by (simp add: example_init)
  have f2: "fst (AdvBert_train_adv example_env example_args ?s1) = Inr ((), ?s2)"
    by (simp add: example_train_adv)
  from refine_returns [of example_env example_args ?s2] obtain s3
    where f3: "fst (AdvBert_refine example_env example_args ?s2) = Inr ((), s3)"
    by blast
  have f4: "fst (AdvBert_pred example_env example_args s3) = Inl (NameError ''load_single'')"
    by (simp add: pred_name_error example_args_def)
  show ?thesis
    by (simp add: main_unfold example_args_simps when_do_True
          bind_prog_Inr [where m = "AdvBert_init example_env example_args" and s = fresh, OF f1]
          bind_prog_Inr [where m = "AdvBert_train_adv example_env example_args" and s = ?s1, OF f2]
          bind_prog_Inr [where m = "AdvBert_refine example_env example_args" and s = ?s2, OF f3]
          f4)
qed

text \<open>
  C8. In the example run every phase is selected, both file options are given and the
  prediction set holds one sentence of one token. The run reaches \<^verbatim>\<open>pred\<close>, which raises at
  \<^verbatim>\<open>load_single\<close> before the output file is opened: no record with a \<^verbatim>\<open>linex_index\<close> and
  rounded values is written for the sentence.
\<close>

theorem pred_writes_no_record:
  "pred_loader example_env 0 = [ [0] ]
   \<and> fst (main example_env example_args fresh) = Inl (NameError ''load_single'')
   \<and> AdvBert_pred example_env example_args fresh
       = (Inl (NameError ''load_single''), [Enter Predict, ReloadBest])
   \<and> list_all (\<lambda>ev. case ev of WriteLine _ \<Rightarrow> False | OpenOutput _ \<Rightarrow> False | _ \<Rightarrow> True)
       (snd (AdvBert_pred example_env example_args fresh))"
proof -
  have "src_file example_args \<noteq> None" and "output_file example_args \<noteq> None"
    by (simp_all add: example_args_def)
  from pred_name_error [OF this, of example_env fresh]
  have "AdvBert_pred example_env example_args fresh
          = (Inl (NameError ''load_single''), [Enter Predict, ReloadBest])" .
  moreover have "pred_loader example_env 0 = [ [0] ]"
    by (simp add: example_env_def)
  ultimately show ?thesis
    by (simp add: example_main_raises)
qed

end
